theory Spec2Isabelle
  imports Main
begin

section \<open>JavaScript values as the kernel layer sees them\<close>

text \<open>
  Values produced by \<^verbatim>\<open>JSON.parse\<close> and the contents of kernel messages. A number is
  kept as the text \<^verbatim>\<open>Number.prototype.toString\<close> renders it with (so \<^verbatim>\<open>0\<close> and
  \<^verbatim>\<open>-0\<close> are both \<open>''0''\<close>); an object is the list of its own properties, each
  key once. \<^verbatim>\<open>undefined\<close> is \<open>None\<close> of \<open>json option\<close>.
\<close>

datatype json =
    JNull
  | JBool bool
  | JNum string
  | JStr string
  | JArr "json list"
  | JObj "(string \<times> json) list"

text \<open>What a \<^verbatim>\<open>throw\<close> carries: the engine's own errors, or a \<^verbatim>\<open>KernelError\<close>.\<close>

datatype KernelErrorType = not_available | not_ready | execution_error | timeout | dead

record KernelError =
  etype :: KernelErrorType
  message :: string
  ename :: "string option"
  evalue :: "string option"
  traceback :: "string list option"

datatype thrown =
    TypeError
  | SyntaxError
  | ThrownKernelError KernelError
  | ThrownError string

text \<open>JavaScript truthiness (\<^verbatim>\<open>if (x)\<close>, \<^verbatim>\<open>!x\<close>, \<^verbatim>\<open>x ? a : b\<close>).\<close>

fun truthy :: "json option \<Rightarrow> bool" where
  "truthy None = False"
| "truthy (Some JNull) = False"
| "truthy (Some (JBool b)) = b"
| "truthy (Some (JNum n)) = (n \<noteq> ''0'')"
| "truthy (Some (JStr s)) = (s \<noteq> [])"
| "truthy (Some (JArr xs)) = True"
| "truthy (Some (JObj kvs)) = True"

text \<open>
  Property reads \<^verbatim>\<open>x.k\<close> and \<^verbatim>\<open>x?.k\<close>, for keys that no prototype defines (the
  only keys read below are \<^verbatim>\<open>data\<close>, \<^verbatim>\<open>text/plain\<close>, \<^verbatim>\<open>databases\<close>,
  \<^verbatim>\<open>prefix\<close>, \<^verbatim>\<open>user_namespace_prefix\<close> and \<^verbatim>\<open>tenant_namespace_prefix\<close>):
  reading from \<^verbatim>\<open>undefined\<close> or \<^verbatim>\<open>null\<close> throws a TypeError, a primitive or an
  array has no such property.
\<close>

fun get_prop :: "json option \<Rightarrow> string \<Rightarrow> thrown + json option" where
  "get_prop None k = Inl TypeError"
| "get_prop (Some JNull) k = Inl TypeError"
| "get_prop (Some (JObj kvs)) k = Inr (map_of kvs k)"
| "get_prop (Some v) k = Inr None"

fun get_prop_opt :: "json option \<Rightarrow> string \<Rightarrow> json option" where
  "get_prop_opt None k = None"
| "get_prop_opt (Some JNull) k = None"
| "get_prop_opt (Some (JObj kvs)) k = map_of kvs k"
| "get_prop_opt (Some v) k = None"

text \<open>\<^verbatim>\<open>Array.prototype.join\<close> on strings, and the abstract operation ToString.\<close>

fun join :: "string \<Rightarrow> string list \<Rightarrow> string" where
  "join sep [] = []"
| "join sep [x] = x"
| "join sep (x # y # ys) = x @ sep @ join sep (y # ys)"

fun ToString :: "json \<Rightarrow> string" where
  "ToString JNull = ''null''"
| "ToString (JBool b) = (if b then ''true'' else ''false'')"
| "ToString (JNum n) = n"
| "ToString (JStr s) = s"
| "ToString (JArr xs) = join '','' (map (\<lambda>x. if x = JNull then [] else ToString x) xs)"
| "ToString (JObj kvs) = ''[object Object]''"

text \<open>\<^verbatim>\<open>s.startsWith(p)\<close> for strings \<open>s\<close> and \<open>p\<close>.\<close>

definition startsWith :: "string \<Rightarrow> string \<Rightarrow> bool" where
  "startsWith s p = (take (length p) s = p)"

section \<open>Output envelope parser\<close>

text \<open>
  \<^verbatim>\<open>rawText.replace(/^'|'$/g, '')\<close>: the global replace removes an apostrophe at index 0
  and, scanning on from there, an apostrophe at the last index.
\<close>

definition quote :: char where
  "quote = CHR 0x27"

definition cleanText :: "string \<Rightarrow> string" where
  "cleanText rawText =
     (let s = (if rawText \<noteq> [] \<and> hd rawText = quote then tl rawText else rawText)
      in if s \<noteq> [] \<and> last s = quote then butlast s else s)"

text \<open>
  The guard of \<^verbatim>\<open>parseKernelOutputJSON\<close>:
  \<^verbatim>\<open>output?.data && typeof output.data === 'object' && 'text/plain' in output.data\<close>.
  An array is an object without that property.
\<close>

fun has_text_plain :: "json option \<Rightarrow> bool" where
  "has_text_plain (Some (JObj kvs)) = (map_of kvs ''text/plain'' \<noteq> None)"
| "has_text_plain v = False"

text \<open>
  The body of the \<^verbatim>\<open>try\<close>: \<^verbatim>\<open>rawText.replace\<close> exists on strings only, and
  \<^verbatim>\<open>JSON.parse\<close> (the parameter \<open>JSON_parse\<close>, \<open>None\<close> where it throws) throws a
  SyntaxError on text that is not JSON.
\<close>

definition parse_try :: "(string \<Rightarrow> json option) \<Rightarrow> json option \<Rightarrow> thrown + json" where
  "parse_try JSON_parse odata =
     (case get_prop odata ''text/plain'' of
        Inl e \<Rightarrow> Inl e
      | Inr rawText \<Rightarrow>
          (case rawText of
             Some (JStr s) \<Rightarrow>
               (case JSON_parse (cleanText s) of
                  None \<Rightarrow> Inl SyntaxError
                | Some v \<Rightarrow> Inr v)
           | _ \<Rightarrow> Inl TypeError))"

text \<open>
  \<open>Inr None\<close> is the return of \<^verbatim>\<open>undefined\<close>; the \<^verbatim>\<open>catch\<close> turns every throw of
  the body into it.
\<close>

definition parseKernelOutputJSON ::
  "(string \<Rightarrow> json option) \<Rightarrow> json option \<Rightarrow> thrown + json option" where
  "parseKernelOutputJSON JSON_parse output =
     (let odata = get_prop_opt output ''data'' in
      if truthy odata \<and> has_text_plain odata then
        (case parse_try JSON_parse odata of
           Inl e \<Rightarrow> Inr None
         | Inr v \<Rightarrow> Inr (Some v))
      else Inr None)"

section \<open>Filtered-query composer\<close>

record query_result =
  data :: "json option"
  error :: "KernelError option"

text \<open>
  \<^verbatim>\<open>response.databases.filter(db => db.startsWith(prefix))\<close> on the elements of an
  array: only a string has \<^verbatim>\<open>startsWith\<close>, which converts its argument by ToString.
\<close>

fun filter_startsWith :: "json list \<Rightarrow> json \<Rightarrow> thrown + string list" where
  "filter_startsWith [] p = Inr []"
| "filter_startsWith (JStr db # dbs) p =
     (case filter_startsWith dbs p of
        Inl e \<Rightarrow> Inl e
      | Inr r \<Rightarrow> Inr (if startsWith db (ToString p) then db # r else r))"
| "filter_startsWith (v # dbs) p = Inl TypeError"

fun array_filter :: "json option \<Rightarrow> json \<Rightarrow> thrown + string list" where
  "array_filter (Some (JArr dbs)) p = filter_startsWith dbs p"
| "array_filter v p = Inl TypeError"

text \<open>
  The selection of the prefix,
  \<^verbatim>\<open>tenant === undefined ? response.prefix.user_namespace_prefix
                        : response.prefix.tenant_namespace_prefix\<close>.
\<close>

definition select_prefix :: "json option \<Rightarrow> string option \<Rightarrow> thrown + json option" where
  "select_prefix response tenant =
     (case get_prop response ''prefix'' of
        Inl e \<Rightarrow> Inl e
      | Inr p \<Rightarrow>
          get_prop p (if tenant = None then ''user_namespace_prefix''
                      else ''tenant_namespace_prefix''))"

text \<open>
  What both variants of \<^verbatim>\<open>fetchFilteredDatabases\<close> do with the response once they hold
  it: the guard \<^verbatim>\<open>!response?.databases\<close>, the selection, the filter.
\<close>

definition filter_response :: "json option \<Rightarrow> string option \<Rightarrow> thrown + string list" where
  "filter_response response tenant =
     (if \<not> truthy (get_prop_opt response ''databases'') then Inr []
      else
        (case select_prefix response tenant of
           Inl e \<Rightarrow> Inl e
         | Inr p \<Rightarrow>
             (case p of
                None \<Rightarrow> Inr []
              | Some pv \<Rightarrow>
                  if truthy (Some pv)
                  then array_filter (get_prop_opt response ''databases'') pv
                  else Inr [])))"

text \<open>
  The kernel variant, from the value \<open>qr\<close> that \<^verbatim>\<open>await queryKernel(...)\<close> gave:
  \<^verbatim>\<open>if (error) throw error\<close>, then parse and filter.
\<close>

definition fetchFilteredDatabases ::
  "(string \<Rightarrow> json option) \<Rightarrow> query_result \<Rightarrow> string option \<Rightarrow> thrown + string list" where
  "fetchFilteredDatabases JSON_parse qr tenant =
     (case error qr of
        Some e \<Rightarrow> Inl (ThrownKernelError e)
      | None \<Rightarrow>
          (case parseKernelOutputJSON JSON_parse (data qr) of
             Inl e \<Rightarrow> Inl e
           | Inr response \<Rightarrow> filter_response response tenant))"

text \<open>The server variant: the response of \<^verbatim>\<open>fetchDatabases(tenant)\<close>, or what it threw.\<close>

definition fetchFilteredDatabases_api ::
  "thrown + json option \<Rightarrow> string option \<Rightarrow> thrown + string list" where
  "fetchFilteredDatabases_api fetched tenant =
     (case fetched of
        Inl e \<Rightarrow> Inl e
      | Inr response \<Rightarrow> filter_response response tenant)"

text \<open>A finite table of texts and the values \<^verbatim>\<open>JSON.parse\<close> gives them.\<close>

definition JSON_parse_table :: "(string \<times> json) list \<Rightarrow> string \<Rightarrow> json option" where
  "JSON_parse_table tab s = map_of tab s"

text \<open>The envelope of a result whose text representation is \<open>s\<close>.\<close>

definition text_envelope :: "string \<Rightarrow> json" where
  "text_envelope s = JObj [(''data'', JObj [(''text/plain'', JStr s)])]"

text \<open>
  The response shape the composer expects: \<open>dbs\<close> are the names under
  \<^verbatim>\<open>databases\<close>, \<open>pkvs\<close> the properties of the \<^verbatim>\<open>prefix\<close> record.
\<close>

definition well_formed_response :: "(string \<times> json) list \<Rightarrow> string list \<Rightarrow> (string \<times> json) list \<Rightarrow> bool" where
  "well_formed_response kvs dbs pkvs =
     (map_of kvs ''databases'' = Some (JArr (map JStr dbs)) \<and>
      map_of kvs ''prefix'' = Some (JObj pkvs))"

text \<open>A prefix field holds a string, or is \<^verbatim>\<open>null\<close> or absent.\<close>

fun as_string :: "json option \<Rightarrow> string option" where
  "as_string (Some (JStr s)) = Some s"
| "as_string v = None"

fun string_or_null :: "json option \<Rightarrow> bool" where
  "string_or_null None = True"
| "string_or_null (Some JNull) = True"
| "string_or_null (Some (JStr s)) = True"
| "string_or_null v = False"

section \<open>Typed errors\<close>

definition ERROR_MESSAGES :: "KernelErrorType \<Rightarrow> string" where
  "ERROR_MESSAGES t =
     (case t of
        not_available \<Rightarrow> ''Kernel is not available''
      | not_ready \<Rightarrow> ''Kernel is not ready''
      | timeout \<Rightarrow> ''Request timed out''
      | dead \<Rightarrow> ''Kernel has stopped''
      | execution_error \<Rightarrow> ''Execution error'')"

record details =
  d_ename :: "string option"
  d_evalue :: "string option"
  d_traceback :: "string list option"

text \<open>The constructor of \<^verbatim>\<open>KernelError\<close>; an empty string is falsy.\<close>

definition new_KernelError :: "KernelErrorType \<Rightarrow> details option \<Rightarrow> KernelError" where
  "new_KernelError t det =
     (let baseMessage = ERROR_MESSAGES t;
          dename = (case det of None \<Rightarrow> None | Some d \<Rightarrow> d_ename d);
          devalue = (case det of None \<Rightarrow> None | Some d \<Rightarrow> d_evalue d);
          detailMessage =
            (if devalue \<noteq> None \<and> devalue \<noteq> Some []
             then (if dename \<noteq> None \<and> dename \<noteq> Some [] then the dename else ''Error'')
                  @ '': '' @ the devalue
             else [])
      in \<lparr>etype = t,
          message = (if detailMessage \<noteq> [] then detailMessage else baseMessage),
          ename = dename,
          evalue = devalue,
          traceback = (case det of None \<Rightarrow> None | Some d \<Rightarrow> d_traceback d)\<rparr>)"

section \<open>Readiness waiter\<close>

datatype Status =
  Unknown | Starting | Idle | Busy | Terminating | Restarting | Autorestarting | Dead

definition readyStatuses :: "Status list" where
  "readyStatuses = [Idle]"

definition badStatuses :: "Status list" where
  "badStatuses = [Dead, Unknown]"

text \<open>
  The promise of one call of \<^verbatim>\<open>waitForKernelReady\<close>, whether \<^verbatim>\<open>onStatusChanged\<close> is
  connected to \<^verbatim>\<open>kernel.statusChanged\<close>, and whether the timer is still to fire.
\<close>

record wait_state =
  w_settled :: "(thrown + unit) option"
  observer_connected :: bool
  timer_armed :: bool

text \<open>A promise keeps its first settlement.\<close>

definition w_settle :: "thrown + unit \<Rightarrow> wait_state \<Rightarrow> wait_state" where
  "w_settle r w = (if w_settled w = None then w\<lparr>w_settled := Some r\<rparr> else w)"

definition bad_status_error :: "Status \<Rightarrow> thrown" where
  "bad_status_error s = ThrownKernelError (new_KernelError (if s = Dead then dead else not_ready) None)"

text \<open>The synchronous part of the call, up to the return of the promise.\<close>

definition waitForKernelReady_enter :: "Status \<Rightarrow> wait_state" where
  "waitForKernelReady_enter s =
     (if s \<in> set readyStatuses then
        \<lparr>w_settled = Some (Inr ()), observer_connected = False, timer_armed = False\<rparr>
      else if s \<in> set badStatuses then
        \<lparr>w_settled = Some (Inl (bad_status_error s)), observer_connected = False, timer_armed = False\<rparr>
      else
        \<lparr>w_settled = None, observer_connected = True, timer_armed = True\<rparr>)"

text \<open>The two callbacks: \<^verbatim>\<open>onStatusChanged\<close> and the timer's.\<close>

definition onStatusChanged :: "Status \<Rightarrow> wait_state \<Rightarrow> wait_state" where
  "onStatusChanged s w =
     (if s \<in> set readyStatuses then
        w_settle (Inr ()) (w\<lparr>timer_armed := False, observer_connected := False\<rparr>)
      else if s \<in> set badStatuses then
        w_settle (Inl (bad_status_error s)) (w\<lparr>timer_armed := False, observer_connected := False\<rparr>)
      else w)"

definition onWaitTimeout :: "wait_state \<Rightarrow> wait_state" where
  "onWaitTimeout w = w_settle (Inl (ThrownKernelError (new_KernelError timeout None))) w"

text \<open>
  What the environment does: the kernel's status changes to \<open>s\<close> (the signal calls the
  observers connected then), or the time is up (the timer fires once, unless cleared).
\<close>

datatype wait_event = StatusChanged Status | WaitTimerFired

fun wait_step :: "wait_state \<Rightarrow> wait_event \<Rightarrow> wait_state" where
  "wait_step w (StatusChanged s) = (if observer_connected w then onStatusChanged s w else w)"
| "wait_step w WaitTimerFired =
     (if timer_armed w then onWaitTimeout (w\<lparr>timer_armed := False\<rparr>) else w)"

definition waitForKernelReady_run :: "Status \<Rightarrow> wait_event list \<Rightarrow> wait_state" where
  "waitForKernelReady_run s evs = foldl wait_step (waitForKernelReady_enter s) evs"

text \<open>What \<^verbatim>\<open>await waitForKernelReady(kernel)\<close> gives; \<open>None\<close> while it is pending.\<close>

definition waitForKernelReady :: "Status \<Rightarrow> wait_event list \<Rightarrow> (thrown + unit) option" where
  "waitForKernelReady s evs = w_settled (waitForKernelReady_run s evs)"

section \<open>Execution protocol client\<close>

datatype stream_name = stdout | stderr

text \<open>
  A message on the IOPub channel, by its \<^verbatim>\<open>msg_type\<close>: the three result-bearing types
  with their content, stream text, an error with its content, and any other type.
\<close>

datatype IIOPubMessage =
    execute_result json
  | display_data json
  | update_display_data json
  | stream stream_name string
  | error_message details
  | other_message string

datatype log_entry = console_warn string | console_debug string

text \<open>
  The closure of the promise in \<^verbatim>\<open>queryKernel\<close>: the flag, the promise (which keeps its
  first settlement), how often \<^verbatim>\<open>resolve\<close> was called, and what was logged.
\<close>

record exec_state =
  hasResolved :: bool
  settled :: "query_result option"
  resolve_calls :: nat
  console :: "log_entry list"

definition exec_init :: exec_state where
  "exec_init = \<lparr>hasResolved = False, settled = None, resolve_calls = 0, console = []\<rparr>"

definition resolve :: "query_result \<Rightarrow> exec_state \<Rightarrow> exec_state" where
  "resolve r st =
     st\<lparr>settled := (if settled st = None then Some r else settled st),
        resolve_calls := Suc (resolve_calls st)\<rparr>"

text \<open>\<^verbatim>\<open>future.onIOPub\<close>.\<close>

fun onIOPub :: "IIOPubMessage \<Rightarrow> exec_state \<Rightarrow> exec_state" where
  "onIOPub (execute_result c) st =
     (if \<not> hasResolved st
      then resolve \<lparr>data = Some c, error = None\<rparr> (st\<lparr>hasResolved := True\<rparr>) else st)"
| "onIOPub (display_data c) st =
     (if \<not> hasResolved st
      then resolve \<lparr>data = Some c, error = None\<rparr> (st\<lparr>hasResolved := True\<rparr>) else st)"
| "onIOPub (update_display_data c) st =
     (if \<not> hasResolved st
      then resolve \<lparr>data = Some c, error = None\<rparr> (st\<lparr>hasResolved := True\<rparr>) else st)"
| "onIOPub (stream n t) st =
     (if n = stderr
      then st\<lparr>console := console st @ [console_warn t]\<rparr>
      else st\<lparr>console := console st @ [console_debug t]\<rparr>)"
| "onIOPub (error_message errorContent) st =
     (if \<not> hasResolved st
      then resolve \<lparr>data = None, error = Some (new_KernelError execution_error (Some errorContent))\<rparr>
             (st\<lparr>hasResolved := True\<rparr>)
      else st)"
| "onIOPub (other_message t) st = st"

text \<open>The callback of the timer set to \<^verbatim>\<open>KERNEL_EXEC_TIMEOUT_MS\<close>.\<close>

definition onExecTimeout :: "exec_state \<Rightarrow> exec_state" where
  "onExecTimeout st =
     (if \<not> hasResolved st
      then resolve \<lparr>data = None, error = Some (new_KernelError timeout None)\<rparr>
             (st\<lparr>hasResolved := True\<rparr>)
      else st)"

datatype exec_event = IOPub IIOPubMessage | ExecTimerFired

fun exec_step :: "exec_state \<Rightarrow> exec_event \<Rightarrow> exec_state" where
  "exec_step st (IOPub msg) = onIOPub msg st"
| "exec_step st ExecTimerFired = onExecTimeout st"

definition exec_run :: "exec_event list \<Rightarrow> exec_state" where
  "exec_run evs = foldl exec_step exec_init evs"

text \<open>The outcome a single event asks for, if it is a terminal one.\<close>

fun terminal_outcome :: "exec_event \<Rightarrow> query_result option" where
  "terminal_outcome (IOPub (execute_result c)) = Some \<lparr>data = Some c, error = None\<rparr>"
| "terminal_outcome (IOPub (display_data c)) = Some \<lparr>data = Some c, error = None\<rparr>"
| "terminal_outcome (IOPub (update_display_data c)) = Some \<lparr>data = Some c, error = None\<rparr>"
| "terminal_outcome (IOPub (error_message d)) =
     Some \<lparr>data = None, error = Some (new_KernelError execution_error (Some d))\<rparr>"
| "terminal_outcome ExecTimerFired = Some \<lparr>data = None, error = Some (new_KernelError timeout None)\<rparr>"
| "terminal_outcome (IOPub m) = None"

fun first_terminal :: "exec_event list \<Rightarrow> query_result option" where
  "first_terminal [] = None"
| "first_terminal (ev # evs) =
     (case terminal_outcome ev of Some r \<Rightarrow> Some r | None \<Rightarrow> first_terminal evs)"

text \<open>The three outcomes of a request.\<close>

datatype outcome_kind = result_envelope | execution_error_outcome | timeout_outcome

definition outcome_of :: "query_result \<Rightarrow> outcome_kind option" where
  "outcome_of r =
     (case (data r, error r) of
        (Some c, None) \<Rightarrow> Some result_envelope
      | (None, Some e) \<Rightarrow>
          (if etype e = execution_error then Some execution_error_outcome
           else if etype e = timeout then Some timeout_outcome
           else None)
      | _ \<Rightarrow> None)"

text \<open>
  A session context as \<^verbatim>\<open>queryKernel\<close> reads it: \<^verbatim>\<open>sessionContext?.session?.kernel\<close>,
  the kernel connection being known by its status at the call.
\<close>

record ISessionConnection =
  kernel :: "Status option"

record SessionContext =
  session :: "ISessionConnection option"

definition live_kernel :: "SessionContext option \<Rightarrow> Status option" where
  "live_kernel sessionContext =
     (case sessionContext of
        None \<Rightarrow> None
      | Some sc \<Rightarrow> (case session sc of None \<Rightarrow> None | Some s \<Rightarrow> kernel s))"

text \<open>The \<^verbatim>\<open>catch\<close> around the readiness wait.\<close>

fun catch_wait :: "thrown \<Rightarrow> query_result" where
  "catch_wait (ThrownKernelError e) = \<lparr>data = None, error = Some e\<rparr>"
| "catch_wait other = \<lparr>data = None, error = Some (new_KernelError not_ready None)\<rparr>"

text \<open>
  \<^verbatim>\<open>queryKernel\<close>, given what the environment does during the readiness wait and during
  the execution; \<open>None\<close> while the call has not returned.
\<close>

definition queryKernel ::
  "SessionContext option \<Rightarrow> wait_event list \<Rightarrow> exec_event list \<Rightarrow> query_result option" where
  "queryKernel sessionContext wevs xevs =
     (case live_kernel sessionContext of
        None \<Rightarrow> Some \<lparr>data = None, error = Some (new_KernelError not_available None)\<rparr>
      | Some k \<Rightarrow>
          (case waitForKernelReady k wevs of
             None \<Rightarrow> None
           | Some (Inl e) \<Rightarrow> Some (catch_wait e)
           | Some (Inr u) \<Rightarrow> settled (exec_run xevs)))"

section \<open>Session manager\<close>

definition KERNEL_NAME :: string where
  "KERNEL_NAME = ''python3''"

text \<open>
  What the service manager does during one initialization: whether
  \<^verbatim>\<open>kernelspecs.ready\<close> rejects, the names of the kernel specs (\<open>None\<close> when
  \<^verbatim>\<open>specs\<close> is null), what \<^verbatim>\<open>sessionContext.initialize()\<close> gives, and how
  \<^verbatim>\<open>changeKernel\<close> ends: fulfilled, rejected, or not before the start timeout.
\<close>

datatype change_outcome = ChangeOk | ChangeFails string | ChangeHangs

record init_env =
  kernelspecs_ready :: "string option"
  specs :: "string list option"
  initialize_outcome :: "string + bool"
  changeKernel_outcome :: change_outcome

text \<open>
  The body of the async function behind \<^verbatim>\<open>sharedSessionPromise\<close>, for the session
  context \<open>sid\<close> it would create: what it settles with, how many session contexts it
  created and how many kernels it requested.
\<close>

definition init_body :: "init_env \<Rightarrow> nat \<Rightarrow> (thrown + nat) \<times> nat \<times> nat" where
  "init_body env sid =
     (case kernelspecs_ready env of
        Some e \<Rightarrow> (Inl (ThrownError e), 0, 0)
      | None \<Rightarrow>
          if specs env = None \<or> KERNEL_NAME \<notin> set (the (specs env)) then
            (Inl (ThrownError (''Kernel '' @ [CHR 0x27] @ KERNEL_NAME @ [CHR 0x27] @ '' not found. ''
               @ ''Available: ''
               @ (case specs env of None \<Rightarrow> ''none'' | Some ks \<Rightarrow> join '', '' ks))), 0, 0)
          else
            (case initialize_outcome env of
               Inl e \<Rightarrow> (Inl (ThrownError e), 1, 0)
             | Inr needsKernel \<Rightarrow>
                 if needsKernel then
                   (case changeKernel_outcome env of
                      ChangeOk \<Rightarrow> (Inr sid, 1, 1)
                    | ChangeFails e \<Rightarrow> (Inl (ThrownError e), 1, 1)
                    | ChangeHangs \<Rightarrow> (Inl (ThrownError ''Timeout starting kernel after 60s''), 1, 1))
                 else (Inr sid, 1, 0)))"

text \<open>
  The module's three variables, and the bookkeeping of the run: the promises of the
  initializations still running, the calls of \<^verbatim>\<open>getOrCreateSharedSession\<close> waiting on a
  promise (caller, promise, and whether the call is the one that started it and so holds
  the \<^verbatim>\<open>catch\<close>), the calls that returned or threw, the session contexts whose status
  is observed, and counters.
\<close>

record manager =
  sharedSessionContext :: "nat option"
  sharedSessionPromise :: "nat option"
  sharedSessionError :: "string option"
  pending_inits :: "nat list"
  awaiting :: "(nat \<times> nat \<times> bool) list"
  returned :: "(nat \<times> (thrown + nat)) list"
  observed :: "nat list"
  inits_started :: nat
  sessions_created :: nat
  kernels_requested :: nat
  reconnect_attempts :: nat

definition manager_init :: manager where
  "manager_init =
     \<lparr>sharedSessionContext = None, sharedSessionPromise = None, sharedSessionError = None,
      pending_inits = [], awaiting = [], returned = [], observed = [],
      inits_started = 0, sessions_created = 0, kernels_requested = 0, reconnect_attempts = 0\<rparr>"

text \<open>
  A call of \<^verbatim>\<open>getOrCreateSharedSession\<close> by caller \<open>c\<close>, up to its first suspension.
\<close>

definition getOrCreateSharedSession :: "nat \<Rightarrow> manager \<Rightarrow> manager" where
  "getOrCreateSharedSession c m =
     (case sharedSessionContext m of
        Some s \<Rightarrow> m\<lparr>returned := returned m @ [(c, Inr s)]\<rparr>
      | None \<Rightarrow>
          (case sharedSessionPromise m of
             Some p \<Rightarrow> m\<lparr>awaiting := awaiting m @ [(c, p, False)]\<rparr>
           | None \<Rightarrow>
               (let p = inits_started m in
                m\<lparr>sharedSessionPromise := Some p,
                  pending_inits := pending_inits m @ [p],
                  inits_started := Suc p,
                  awaiting := awaiting m @ [(c, p, True)]\<rparr>)))"

text \<open>
  The initialization behind promise \<open>p\<close> runs to its end in environment \<open>env\<close>: on
  success it connects the status observer and sets \<^verbatim>\<open>sharedSessionContext\<close>; then the
  calls waiting on \<open>p\<close> continue in the order they attached, the call holding the
  \<^verbatim>\<open>catch\<close> clearing \<^verbatim>\<open>sharedSessionPromise\<close> on a rejection.
\<close>

definition init_settles :: "nat \<Rightarrow> init_env \<Rightarrow> manager \<Rightarrow> manager" where
  "init_settles p env m =
     (if p \<notin> set (pending_inits m) then m
      else
        (let (r, created, requested) = init_body env (sessions_created m);
             waiting = filter (\<lambda>(c, q, i). q = p) (awaiting m);
             m1 = m\<lparr>pending_inits := removeAll p (pending_inits m),
                    sessions_created := sessions_created m + created,
                    kernels_requested := kernels_requested m + requested\<rparr>;
             m2 = (case r of
                     Inr s \<Rightarrow> m1\<lparr>observed := observed m1 @ [s], sharedSessionContext := Some s\<rparr>
                   | Inl e \<Rightarrow> m1);
             m3 = (if isl r \<and> list_ex (\<lambda>(c, q, i). i) waiting
                   then m2\<lparr>sharedSessionPromise := None\<rparr> else m2)
         in m3\<lparr>awaiting := filter (\<lambda>(c, q, i). q \<noteq> p) (awaiting m),
               returned := returned m @ map (\<lambda>(c, q, i). (c, r)) waiting\<rparr>))"

text \<open>
  The observer connected to \<^verbatim>\<open>sessionContext.statusChanged\<close>: the kernel of session
  context \<open>s\<close> changes its status to \<open>st\<close>, and \<^verbatim>\<open>changeKernel\<close>, if the observer calls
  it, ends as \<open>co\<close> says.
\<close>

definition on_session_status :: "nat \<Rightarrow> Status \<Rightarrow> change_outcome \<Rightarrow> manager \<Rightarrow> manager" where
  "on_session_status s st co m =
     (if s \<in> set (observed m) \<and> st = Dead then
        (let m1 = m\<lparr>reconnect_attempts := Suc (reconnect_attempts m),
                    kernels_requested := Suc (kernels_requested m)\<rparr>
         in case co of
              ChangeOk \<Rightarrow> m1\<lparr>sharedSessionError := None\<rparr>
            | ChangeFails e \<Rightarrow> m1\<lparr>sharedSessionError := Some ''Kernel died and reconnection failed''\<rparr>
            | ChangeHangs \<Rightarrow> m1)
      else m)"

datatype manager_event =
    Acquire nat
  | InitSettles nat init_env
  | SessionStatus nat Status change_outcome

fun manager_step :: "manager \<Rightarrow> manager_event \<Rightarrow> manager" where
  "manager_step m (Acquire c) = getOrCreateSharedSession c m"
| "manager_step m (InitSettles p env) = init_settles p env m"
| "manager_step m (SessionStatus s st co) = on_session_status s st co m"

definition manager_run :: "manager_event list \<Rightarrow> manager" where
  "manager_run evs = foldl manager_step manager_init evs"

text \<open>An environment in which the initialization succeeds and starts a kernel.\<close>

definition env_ok :: init_env where
  "env_ok = \<lparr>kernelspecs_ready = None, specs = Some [''python3''],
             initialize_outcome = Inr True, changeKernel_outcome = ChangeOk\<rparr>"

section \<open>Example inputs\<close>

text \<open>
  Texts as \<^verbatim>\<open>json.dumps\<close> writes them, with the values \<^verbatim>\<open>JSON.parse\<close> gives them:
  the catalog of the spec's example, and a catalog whose prefixes are empty strings.
\<close>

definition acme_text :: string where
  \<open>acme_text = ''{"databases": ["acme_orders", "acme_users", "other_x"], "prefix": {"username": "alice", "user_namespace_prefix": "u_alice__", "tenant": "acme", "tenant_namespace_prefix": "acme_"}}''\<close>

definition acme_prefix :: "(string \<times> json) list" where
  "acme_prefix =
     [(''username'', JStr ''alice''), (''user_namespace_prefix'', JStr ''u_alice__''),
      (''tenant'', JStr ''acme''), (''tenant_namespace_prefix'', JStr ''acme_'')]"

definition acme_response :: "(string \<times> json) list" where
  "acme_response =
     [(''databases'', JArr [JStr ''acme_orders'', JStr ''acme_users'', JStr ''other_x'']),
      (''prefix'', JObj acme_prefix)]"

definition blank_text :: string where
  \<open>blank_text = ''{"databases": ["acme_orders"], "prefix": {"username": "", "user_namespace_prefix": "", "tenant": "t", "tenant_namespace_prefix": ""}}''\<close>

definition blank_prefix :: "(string \<times> json) list" where
  "blank_prefix =
     [(''username'', JStr []), (''user_namespace_prefix'', JStr []),
      (''tenant'', JStr ''t''), (''tenant_namespace_prefix'', JStr [])]"

definition blank_response :: "(string \<times> json) list" where
  "blank_response =
     [(''databases'', JArr [JStr ''acme_orders'']), (''prefix'', JObj blank_prefix)]"

definition example_parse :: "string \<Rightarrow> json option" where
  "example_parse =
     JSON_parse_table [(acme_text, JObj acme_response), (blank_text, JObj blank_response)]"

text \<open>The result of a query whose output is the Python string \<open>s\<close>, echoed in apostrophes.\<close>

definition echoed :: "string \<Rightarrow> query_result" where
  "echoed s = \<lparr>data = Some (text_envelope (quote # s @ [quote])), error = None\<rparr>"

section \<open>Properties of the output envelope parser\<close>

lemma cleanText_wrapped:
  assumes "p \<noteq> []" "hd p \<noteq> quote" "last p \<noteq> quote"
  shows "cleanText (quote # p @ [quote]) = p"
  using assms by (simp add: cleanText_def)



lemma parse_text_envelope:
  "parseKernelOutputJSON JSON_parse (Some (text_envelope s)) = Inr (JSON_parse (cleanText s))"
  by (simp add: parseKernelOutputJSON_def text_envelope_def parse_try_def split: option.splits)



text \<open>
  Claim C8. \<^verbatim>\<open>parseKernelOutputJSON\<close> never throws: on every envelope it returns. It
  returns \<^verbatim>\<open>undefined\<close> when the envelope is missing, when its \<^verbatim>\<open>data\<close> has no
  \<^verbatim>\<open>text/plain\<close> entry, when anything in the \<^verbatim>\<open>try\<close> throws, and so when the text
  \<open>s\<close> of the envelope does not decode.
\<close>

theorem parseKernelOutputJSON_never_throws:
  "(\<exists>r. parseKernelOutputJSON JSON_parse output = Inr r)
   \<and> parseKernelOutputJSON JSON_parse None = Inr None
   \<and> (\<not> has_text_plain (get_prop_opt output ''data'') \<longrightarrow>
        parseKernelOutputJSON JSON_parse output = Inr None)
   \<and> (parse_try JSON_parse (get_prop_opt output ''data'') = Inl e \<longrightarrow>
        parseKernelOutputJSON JSON_parse output = Inr None)
   \<and> (JSON_parse (cleanText s) = None \<longrightarrow>
        parseKernelOutputJSON JSON_parse (Some (text_envelope s)) = Inr None)"
proof -
  have "\<exists>r. parseKernelOutputJSON JSON_parse output = Inr r"
    by (simp add: parseKernelOutputJSON_def Let_def split: sum.splits)
  moreover have "parseKernelOutputJSON JSON_parse None = Inr None"
    by (simp add: parseKernelOutputJSON_def)
  moreover have "\<not> has_text_plain (get_prop_opt output ''data'') \<longrightarrow>
        parseKernelOutputJSON JSON_parse output = Inr None"
    by (simp add: parseKernelOutputJSON_def)
  moreover have "parse_try JSON_parse (get_prop_opt output ''data'') = Inl e \<longrightarrow>
        parseKernelOutputJSON JSON_parse output = Inr None"
    by (simp add: parseKernelOutputJSON_def Let_def)
  moreover have "JSON_parse (cleanText s) = None \<longrightarrow>
        parseKernelOutputJSON JSON_parse (Some (text_envelope s)) = Inr None"
    by (simp add: parse_text_envelope)
  ultimately show ?thesis by blast
qed

theorem parseKernelOutputJSON_never_throws_witness:
  "\<not> has_text_plain (get_prop_opt (Some (JObj [(''data'', JObj [(''text/html'', JStr ''x'')])])) ''data'')
   \<and> parseKernelOutputJSON (JSON_parse_table [])
        (Some (JObj [(''data'', JObj [(''text/html'', JStr ''x'')])])) = Inr None
   \<and> parse_try (JSON_parse_table [])
        (get_prop_opt (Some (JObj [(''data'', JObj [(''text/plain'', JNull)])])) ''data'') = Inl TypeError
   \<and> parseKernelOutputJSON (JSON_parse_table [])
        (Some (JObj [(''data'', JObj [(''text/plain'', JNull)])])) = Inr None
   \<and> JSON_parse_table [] (cleanText ''{oops'') = None
   \<and> parseKernelOutputJSON (JSON_parse_table []) (Some (text_envelope ''{oops'')) = Inr None"
proof -
  have a: "\<not> has_text_plain (get_prop_opt (Some (JObj [(''data'', JObj [(''text/html'', JStr ''x'')])])) ''data'')"
    by simp
  have b: "parse_try (JSON_parse_table [])
        (get_prop_opt (Some (JObj [(''data'', JObj [(''text/plain'', JNull)])])) ''data'') = Inl TypeError"
    by (simp add: parse_try_def)
  have c: "JSON_parse_table [] (cleanText ''{oops'') = None"
    by (simp add: JSON_parse_table_def)
  from a b c
    parseKernelOutputJSON_never_throws
      [of "JSON_parse_table []" "Some (JObj [(''data'', JObj [(''text/html'', JStr ''x'')])])"]
    parseKernelOutputJSON_never_throws
      [of "JSON_parse_table []" "Some (JObj [(''data'', JObj [(''text/plain'', JNull)])])" TypeError "''{oops''"]
  show ?thesis by simp
qed

section \<open>Properties of the filtered-query composer\<close>

lemma filter_startsWith_strings:
  "filter_startsWith (map JStr dbs) p = Inr (filter (\<lambda>db. startsWith db (ToString p)) dbs)"
  by (induction dbs) simp_all

lemma filter_response_no_databases:
  assumes "\<And>kvs. response = Some (JObj kvs) \<Longrightarrow> \<not> truthy (map_of kvs ''databases'')"
  shows "filter_response response tenant = Inr []"
proof (cases response)
  case None
  then show ?thesis by (simp add: filter_response_def)
next
  case (Some v)
  then show ?thesis using assms by (cases v) (simp_all add: filter_response_def)
qed

lemma filter_response_well_formed:
  assumes wf: "well_formed_response kvs dbs pkvs"
    and sel: "map_of pkvs (if tenant = None then ''user_namespace_prefix''
                           else ''tenant_namespace_prefix'') = selected"
    and ty: "string_or_null selected"
  shows "filter_response (Some (JObj kvs)) tenant =
           Inr (case as_string selected of
                  None \<Rightarrow> []
                | Some p \<Rightarrow> if p = [] then [] else filter (\<lambda>db. startsWith db p) dbs)"
proof -
  have s: "select_prefix (Some (JObj kvs)) tenant = Inr selected"
    using wf sel by (simp add: select_prefix_def well_formed_response_def)
  have d: "get_prop_opt (Some (JObj kvs)) ''databases'' = Some (JArr (map JStr dbs))"
    using wf by (simp add: well_formed_response_def)
  show ?thesis
  proof (cases selected)
    case None
    then show ?thesis using s d by (simp add: filter_response_def)
  next
    case (Some pv)
    then show ?thesis using s d ty
      by (cases pv) (simp_all add: filter_response_def filter_startsWith_strings)
  qed
qed

lemma filter_response_empty_prefix:
  assumes "select_prefix response tenant = Inr (Some (JStr []))"
  shows "filter_response response tenant = Inr []"
  using assms by (simp add: filter_response_def)

text \<open>
  Claim C3, as the code has it. \<^verbatim>\<open>fetchFilteredDatabases\<close> throws the error of the
  kernel's result as it is. With no error, it returns the empty list whenever the parsed
  result is anything but an object with a truthy \<^verbatim>\<open>databases\<close>: absent, \<^verbatim>\<open>null\<close>, a
  primitive, an array, or an object whose \<^verbatim>\<open>databases\<close> is absent or falsy. The
  server variant returns the empty list on such a response too.
\<close>

theorem fetchFilteredDatabases_error_and_absent:
  "fetchFilteredDatabases JSON_parse \<lparr>data = d, error = Some e\<rparr> tenant = Inl (ThrownKernelError e)
   \<and> (parseKernelOutputJSON JSON_parse d = Inr response
        \<and> (\<forall>kvs. response = Some (JObj kvs) \<longrightarrow> \<not> truthy (map_of kvs ''databases''))
      \<longrightarrow> fetchFilteredDatabases JSON_parse \<lparr>data = d, error = None\<rparr> tenant = Inr []
          \<and> fetchFilteredDatabases_api (Inr response) tenant = Inr [])"
proof -
  have "fetchFilteredDatabases JSON_parse \<lparr>data = d, error = Some e\<rparr> tenant = Inl (ThrownKernelError e)"
    by (simp add: fetchFilteredDatabases_def)
  moreover have "parseKernelOutputJSON JSON_parse d = Inr response
        \<and> (\<forall>kvs. response = Some (JObj kvs) \<longrightarrow> \<not> truthy (map_of kvs ''databases''))
      \<longrightarrow> fetchFilteredDatabases JSON_parse \<lparr>data = d, error = None\<rparr> tenant = Inr []
          \<and> fetchFilteredDatabases_api (Inr response) tenant = Inr []"
  proof
    assume a: "parseKernelOutputJSON JSON_parse d = Inr response
        \<and> (\<forall>kvs. response = Some (JObj kvs) \<longrightarrow> \<not> truthy (map_of kvs ''databases''))"
    then have "filter_response response tenant = Inr []"
      by (intro filter_response_no_databases) blast
    with a show "fetchFilteredDatabases JSON_parse \<lparr>data = d, error = None\<rparr> tenant = Inr []
          \<and> fetchFilteredDatabases_api (Inr response) tenant = Inr []"
      by (simp add: fetchFilteredDatabases_def fetchFilteredDatabases_api_def)
  qed
  ultimately show ?thesis by blast
qed

theorem fetchFilteredDatabases_error_and_absent_witness:
  \<open>parseKernelOutputJSON (JSON_parse_table [(''{"prefix": null}'', JObj [(''prefix'', JNull)])])
      (Some (text_envelope (quote # ''{"prefix": null}'' @ [quote])))
     = Inr (Some (JObj [(''prefix'', JNull)]))
   \<and> \<not> truthy (map_of [(''prefix'', JNull)] ''databases'')
   \<and> fetchFilteredDatabases (JSON_parse_table [(''{"prefix": null}'', JObj [(''prefix'', JNull)])])
        \<lparr>data = Some (text_envelope (quote # ''{"prefix": null}'' @ [quote])), error = None\<rparr>
        (Some ''acme'') = Inr []\<close>
proof -
  let ?J = \<open>JSON_parse_table [(''{"prefix": null}'', JObj [(''prefix'', JNull)])]\<close>
  let ?d = \<open>Some (text_envelope (quote # ''{"prefix": null}'' @ [quote]))\<close>
  have p: "parseKernelOutputJSON ?J ?d = Inr (Some (JObj [(''prefix'', JNull)]))"
    by (simp add: parse_text_envelope cleanText_def quote_def JSON_parse_table_def)
  have t: "\<forall>kvs. Some (JObj [(''prefix'', JNull)]) = Some (JObj kvs) \<longrightarrow> \<not> truthy (map_of kvs ''databases'')"
    by auto
  from fetchFilteredDatabases_error_and_absent [of ?J ?d "new_KernelError timeout None" "Some ''acme''" "Some (JObj [(''prefix'', JNull)])"] p t
  show ?thesis by simp
qed

text \<open>
  The claim C3 as the spec states it fails: the parsed result
  \<^verbatim>\<open>{"databases": ["a"]}\<close> is not of the expected shape, and the call throws a
  TypeError at \<^verbatim>\<open>response.prefix.user_namespace_prefix\<close>.
\<close>

theorem fetchFilteredDatabases_malformed_counterexample:
  \<open>fetchFilteredDatabases
     (JSON_parse_table [(''{"databases": ["a"]}'', JObj [(''databases'', JArr [JStr ''a''])])])
     \<lparr>data = Some (text_envelope (quote # ''{"databases": ["a"]}'' @ [quote])), error = None\<rparr>
     None = Inl TypeError\<close>
  by (simp add: fetchFilteredDatabases_def parse_text_envelope JSON_parse_table_def cleanText_def
      quote_def filter_response_def select_prefix_def)

text \<open>
  Claim C6, as the code has it. For a parsed result of the expected shape, the selected
  prefix is the \<^verbatim>\<open>user_namespace_prefix\<close> when no tenant is given and the
  \<^verbatim>\<open>tenant_namespace_prefix\<close> otherwise; the call returns the empty list when that
  prefix is \<^verbatim>\<open>null\<close>, absent or the empty string, and otherwise the databases whose
  names start with it, in their order.
\<close>

theorem fetchFilteredDatabases_prefix_filter:
  assumes ok: "error qr = None"
    and parsed: "parseKernelOutputJSON JSON_parse (data qr) = Inr (Some (JObj kvs))"
    and wf: "well_formed_response kvs dbs pkvs"
    and sel: "map_of pkvs (if tenant = None then ''user_namespace_prefix''
                           else ''tenant_namespace_prefix'') = selected"
    and ty: "string_or_null selected"
  shows "fetchFilteredDatabases JSON_parse qr tenant =
           Inr (case as_string selected of
                  None \<Rightarrow> []
                | Some p \<Rightarrow> if p = [] then [] else filter (\<lambda>db. startsWith db p) dbs)"
  using ok parsed filter_response_well_formed [OF wf sel ty]
  by (simp add: fetchFilteredDatabases_def)

lemma acme_text_ends: "acme_text \<noteq> [] \<and> hd acme_text \<noteq> quote \<and> last acme_text \<noteq> quote"
  by (simp add: acme_text_def quote_def)

lemma blank_text_ends: "blank_text \<noteq> [] \<and> hd blank_text \<noteq> quote \<and> last blank_text \<noteq> quote"
  by (simp add: blank_text_def quote_def)

lemma texts_differ: "acme_text \<noteq> blank_text"
  by (simp add: acme_text_def blank_text_def)

lemma parse_echoed_acme:
  "parseKernelOutputJSON example_parse (data (echoed acme_text)) = Inr (Some (JObj acme_response))"
  using acme_text_ends
  by (simp add: echoed_def parse_text_envelope cleanText_wrapped example_parse_def
      JSON_parse_table_def)

lemma parse_echoed_blank:
  "parseKernelOutputJSON example_parse (data (echoed blank_text)) = Inr (Some (JObj blank_response))"
  using blank_text_ends texts_differ
  by (simp add: echoed_def parse_text_envelope cleanText_wrapped example_parse_def
      JSON_parse_table_def)

theorem fetchFilteredDatabases_prefix_filter_witness:
  "error (echoed acme_text) = None
   \<and> parseKernelOutputJSON example_parse (data (echoed acme_text)) = Inr (Some (JObj acme_response))
   \<and> well_formed_response acme_response [''acme_orders'', ''acme_users'', ''other_x''] acme_prefix
   \<and> map_of acme_prefix ''tenant_namespace_prefix'' = Some (JStr ''acme_'')
   \<and> string_or_null (Some (JStr ''acme_''))
   \<and> fetchFilteredDatabases example_parse (echoed acme_text) (Some ''acme'')
       = Inr [''acme_orders'', ''acme_users'']"
proof -
  have ok: "error (echoed acme_text) = None"
    by (simp add: echoed_def)
  have wf: "well_formed_response acme_response [''acme_orders'', ''acme_users'', ''other_x''] acme_prefix"
    by (simp add: well_formed_response_def acme_response_def)
  have sel: "map_of acme_prefix (if Some ''acme'' = None then ''user_namespace_prefix''
                           else ''tenant_namespace_prefix'') = Some (JStr ''acme_'')"
    by (simp add: acme_prefix_def)
  have ty: "string_or_null (Some (JStr ''acme_''))"
    by simp
  from fetchFilteredDatabases_prefix_filter [OF ok parse_echoed_acme wf sel ty] ok wf sel ty
  show ?thesis
    by (simp add: parse_echoed_acme startsWith_def)
qed

text \<open>
  The claim C6 as the spec states it fails where the selected prefix is the empty string:
  every name starts with it, and the call returns the empty list.
\<close>

theorem fetchFilteredDatabases_prefix_filter_counterexample:
  "well_formed_response blank_response [''acme_orders''] blank_prefix
   \<and> map_of blank_prefix ''user_namespace_prefix'' = Some (JStr [])
   \<and> fetchFilteredDatabases example_parse (echoed blank_text) None = Inr []
   \<and> fetchFilteredDatabases example_parse (echoed blank_text) None
       \<noteq> Inr (filter (\<lambda>db. startsWith db []) [''acme_orders''])"
proof -
  have wf: "well_formed_response blank_response [''acme_orders''] blank_prefix"
    by (simp add: well_formed_response_def blank_response_def)
  have sel: "map_of blank_prefix ''user_namespace_prefix'' = Some (JStr [])"
    by (simp add: blank_prefix_def)
  have "select_prefix (Some (JObj blank_response)) None = Inr (Some (JStr []))"
    using sel by (simp add: select_prefix_def blank_response_def)
  then have "filter_response (Some (JObj blank_response)) None = Inr []"
    by (rule filter_response_empty_prefix)
  then have r: "fetchFilteredDatabases example_parse (echoed blank_text) None = Inr []"
    using parse_echoed_blank by (simp add: fetchFilteredDatabases_def echoed_def)
  show ?thesis using wf sel r by (simp add: startsWith_def)
qed

text \<open>
  Claim C10. Where the selected prefix is the empty string, both variants of
  \<^verbatim>\<open>fetchFilteredDatabases\<close> return the empty list, although every name starts with
  the empty string.
\<close>

theorem fetchFilteredDatabases_empty_prefix:
  assumes ok: "error qr = None"
    and parsed: "parseKernelOutputJSON JSON_parse (data qr) = Inr response"
    and sel: "select_prefix response tenant = Inr (Some (JStr []))"
  shows "fetchFilteredDatabases JSON_parse qr tenant = Inr []
       \<and> fetchFilteredDatabases_api (Inr response) tenant = Inr []
       \<and> startsWith db []"
  using ok parsed filter_response_empty_prefix [OF sel]
  by (simp add: fetchFilteredDatabases_def fetchFilteredDatabases_api_def startsWith_def)

theorem fetchFilteredDatabases_empty_prefix_witness:
  "error (echoed blank_text) = None
   \<and> parseKernelOutputJSON example_parse (data (echoed blank_text)) = Inr (Some (JObj blank_response))
   \<and> select_prefix (Some (JObj blank_response)) (Some ''t'') = Inr (Some (JStr []))
   \<and> fetchFilteredDatabases example_parse (echoed blank_text) (Some ''t'') = Inr []
   \<and> fetchFilteredDatabases_api (Inr (Some (JObj blank_response))) (Some ''t'') = Inr []
   \<and> startsWith ''acme_orders'' []"
proof -
  have ok: "error (echoed blank_text) = None"
    by (simp add: echoed_def)
  have sel: "select_prefix (Some (JObj blank_response)) (Some ''t'') = Inr (Some (JStr []))"
    by (simp add: select_prefix_def blank_response_def blank_prefix_def)
  from fetchFilteredDatabases_empty_prefix [OF ok parse_echoed_blank sel, of "''acme_orders''"] ok sel
  show ?thesis
    by (simp add: parse_echoed_blank)
qed

section \<open>Properties of the execution protocol client\<close>

lemma exec_step_resolved:
  assumes "hasResolved st"
  shows "settled (exec_step st ev) = settled st
       \<and> resolve_calls (exec_step st ev) = resolve_calls st
       \<and> hasResolved (exec_step st ev)"
proof (cases ev)
  case (IOPub msg)
  then show ?thesis using assms by (cases msg) simp_all
next
  case ExecTimerFired
  then show ?thesis using assms by (simp add: onExecTimeout_def)
qed

lemma exec_foldl_resolved:
  assumes "hasResolved st"
  shows "settled (foldl exec_step st evs) = settled st
       \<and> resolve_calls (foldl exec_step st evs) = resolve_calls st
       \<and> hasResolved (foldl exec_step st evs)"
  using assms
proof (induction evs arbitrary: st)
  case Nil
  then show ?case by simp
next
  case (Cons ev evs)
  from exec_step_resolved [OF Cons.prems, of ev]
  have s: "settled (exec_step st ev) = settled st"
    and c: "resolve_calls (exec_step st ev) = resolve_calls st"
    and h: "hasResolved (exec_step st ev)"
    by simp_all
  from Cons.IH [OF h] s c show ?case by simp
qed

lemma exec_step_terminal:
  assumes "\<not> hasResolved st" "settled st = None" "terminal_outcome ev = Some r"
  shows "settled (exec_step st ev) = Some r \<and> hasResolved (exec_step st ev)
       \<and> resolve_calls (exec_step st ev) = Suc (resolve_calls st)"
proof (cases ev)
  case (IOPub msg)
  then show ?thesis using assms by (cases msg) (auto simp: resolve_def)
next
  case ExecTimerFired
  then show ?thesis using assms by (auto simp: onExecTimeout_def resolve_def)
qed

lemma exec_step_nonterminal:
  assumes "terminal_outcome ev = None"
  shows "settled (exec_step st ev) = settled st
       \<and> hasResolved (exec_step st ev) = hasResolved st
       \<and> resolve_calls (exec_step st ev) = resolve_calls st"
proof (cases ev)
  case (IOPub msg)
  then show ?thesis using assms by (cases msg) simp_all
next
  case ExecTimerFired
  then show ?thesis using assms by simp
qed

lemma exec_foldl_first_terminal:
  assumes "\<not> hasResolved st" "settled st = None"
  shows "settled (foldl exec_step st evs) = first_terminal evs
       \<and> hasResolved (foldl exec_step st evs) = (first_terminal evs \<noteq> None)
       \<and> resolve_calls (foldl exec_step st evs) =
           (if first_terminal evs = None then resolve_calls st else Suc (resolve_calls st))"
  using assms
proof (induction evs arbitrary: st)
  case Nil
  then show ?case by simp
next
  case (Cons ev evs)
  show ?case
  proof (cases "terminal_outcome ev")
    case None
    from exec_step_nonterminal [OF None, of st] Cons.prems
    have "\<not> hasResolved (exec_step st ev)" "settled (exec_step st ev) = None"
      "resolve_calls (exec_step st ev) = resolve_calls st"
      by simp_all
    with Cons.IH [of "exec_step st ev"] None show ?thesis by simp
  next
    case (Some r)
    from exec_step_terminal [OF Cons.prems Some]
    have h: "hasResolved (exec_step st ev)" and s: "settled (exec_step st ev) = Some r"
      and c: "resolve_calls (exec_step st ev) = Suc (resolve_calls st)"
      by simp_all
    from exec_foldl_resolved [OF h, of evs] s c Some show ?thesis by simp
  qed
qed

lemma exec_run_first_terminal:
  "settled (exec_run evs) = first_terminal evs
   \<and> hasResolved (exec_run evs) = (first_terminal evs \<noteq> None)
   \<and> resolve_calls (exec_run evs) = (if first_terminal evs = None then 0 else 1)"
  using exec_foldl_first_terminal [of exec_init evs]
  by (simp add: exec_run_def exec_init_def)

lemma terminal_outcome_kind:
  assumes "terminal_outcome ev = Some r"
  shows "\<exists>k. outcome_of r = Some k"
proof (cases ev)
  case (IOPub msg)
  with assms show ?thesis
    by (cases msg) (auto simp: outcome_of_def new_KernelError_def Let_def)
next
  case ExecTimerFired
  with assms show ?thesis
    by (auto simp: outcome_of_def new_KernelError_def Let_def)
qed

lemma first_terminal_kind:
  "first_terminal evs = Some r \<Longrightarrow> \<exists>k. outcome_of r = Some k"
  by (induction evs) (auto split: option.splits dest: terminal_outcome_kind)

lemma first_terminal_timer:
  "ExecTimerFired \<in> set evs \<Longrightarrow> first_terminal evs \<noteq> None"
  by (induction evs) (auto split: option.splits)

lemma first_terminal_append:
  "first_terminal evs = Some r \<Longrightarrow> first_terminal (evs @ later) = Some r"
  by (induction evs) (auto split: option.splits)

text \<open>
  Claim C1. The promise of a request settles with the outcome of the first terminal event
  of its stream (a result-bearing message, an error message, or the timer). Once the timer
  has fired the request has an outcome, which is one of the three kinds, and \<^verbatim>\<open>resolve\<close>
  was called once. An outcome, once there, stays whatever events come later, and
  \<^verbatim>\<open>resolve\<close> is not called again. A stream-text message changes neither the flag nor
  the promise in any state. With a live kernel that is ready, \<^verbatim>\<open>queryKernel\<close> returns
  that outcome.
\<close>

theorem queryKernel_first_terminal_wins:
  "settled (exec_run evs) = first_terminal evs
   \<and> (ExecTimerFired \<in> set evs \<longrightarrow>
        (\<exists>r k. settled (exec_run evs) = Some r \<and> outcome_of r = Some k)
        \<and> resolve_calls (exec_run evs) = 1)
   \<and> (settled (exec_run evs) = Some r \<longrightarrow>
        settled (exec_run (evs @ later)) = Some r \<and> resolve_calls (exec_run (evs @ later)) = 1)
   \<and> settled (exec_step st (IOPub (stream n t))) = settled st
   \<and> hasResolved (exec_step st (IOPub (stream n t))) = hasResolved st
   \<and> resolve_calls (exec_step st (IOPub (stream n t))) = resolve_calls st
   \<and> (live_kernel sc = Some k \<and> waitForKernelReady k wevs = Some (Inr ()) \<longrightarrow>
        queryKernel sc wevs evs = first_terminal evs)"
proof -
  note a = exec_run_first_terminal [of evs]
  have 1: "settled (exec_run evs) = first_terminal evs"
    using a by simp
  have 2: "ExecTimerFired \<in> set evs \<longrightarrow>
        (\<exists>r k. settled (exec_run evs) = Some r \<and> outcome_of r = Some k)
        \<and> resolve_calls (exec_run evs) = 1"
  proof
    assume "ExecTimerFired \<in> set evs"
    then obtain r where r: "first_terminal evs = Some r"
      using first_terminal_timer by blast
    with first_terminal_kind obtain k where "outcome_of r = Some k"
      by blast
    with r a show "(\<exists>r k. settled (exec_run evs) = Some r \<and> outcome_of r = Some k)
        \<and> resolve_calls (exec_run evs) = 1"
      by simp
  qed
  have 3: "settled (exec_run evs) = Some r \<longrightarrow>
        settled (exec_run (evs @ later)) = Some r \<and> resolve_calls (exec_run (evs @ later)) = 1"
  proof
    assume "settled (exec_run evs) = Some r"
    then have "first_terminal evs = Some r"
      using a by simp
    then have "first_terminal (evs @ later) = Some r"
      by (rule first_terminal_append)
    then show "settled (exec_run (evs @ later)) = Some r
        \<and> resolve_calls (exec_run (evs @ later)) = 1"
      using exec_run_first_terminal [of "evs @ later"] by simp
  qed
  have 4: "live_kernel sc = Some k \<and> waitForKernelReady k wevs = Some (Inr ()) \<longrightarrow>
        queryKernel sc wevs evs = first_terminal evs"
    using 1 by (simp add: queryKernel_def)
  show ?thesis using 1 2 3 4 by simp
qed

theorem queryKernel_first_terminal_wins_witness:
  "ExecTimerFired \<in> set [IOPub (stream stdout ''hi''), IOPub (execute_result (JStr ''7'')), ExecTimerFired]
   \<and> settled (exec_run [IOPub (stream stdout ''hi''), IOPub (execute_result (JStr ''7'')), ExecTimerFired])
       = Some \<lparr>data = Some (JStr ''7''), error = None\<rparr>
   \<and> outcome_of \<lparr>data = Some (JStr ''7''), error = None\<rparr> = Some result_envelope
   \<and> settled (exec_run ([IOPub (stream stdout ''hi''), IOPub (execute_result (JStr ''7'')), ExecTimerFired]
        @ [IOPub (error_message \<lparr>d_ename = Some ''E'', d_evalue = Some ''late'', d_traceback = None\<rparr>)]))
       = Some \<lparr>data = Some (JStr ''7''), error = None\<rparr>
   \<and> resolve_calls (exec_run ([IOPub (stream stdout ''hi''), IOPub (execute_result (JStr ''7'')), ExecTimerFired]
        @ [IOPub (error_message \<lparr>d_ename = Some ''E'', d_evalue = Some ''late'', d_traceback = None\<rparr>)])) = 1
   \<and> live_kernel (Some \<lparr>session = Some \<lparr>kernel = Some Idle\<rparr>\<rparr>) = Some Idle
   \<and> waitForKernelReady Idle [] = Some (Inr ())
   \<and> queryKernel (Some \<lparr>session = Some \<lparr>kernel = Some Idle\<rparr>\<rparr>) []
        [IOPub (stream stdout ''hi''), IOPub (execute_result (JStr ''7'')), ExecTimerFired]
       = Some \<lparr>data = Some (JStr ''7''), error = None\<rparr>"
proof -
  let ?evs = "[IOPub (stream stdout ''hi''), IOPub (execute_result (JStr ''7'')), ExecTimerFired]"
  let ?later = "[IOPub (error_message \<lparr>d_ename = Some ''E'', d_evalue = Some ''late'', d_traceback = None\<rparr>)]"
  let ?r = "\<lparr>data = Some (JStr ''7''), error = None\<rparr>"
  let ?sc = "Some \<lparr>session = Some \<lparr>kernel = Some Idle\<rparr>\<rparr>"
  have f: "first_terminal ?evs = Some ?r"
    by simp
  have k: "live_kernel ?sc = Some Idle"
    by (simp add: live_kernel_def)
  have w: "waitForKernelReady Idle [] = Some (Inr ())"
    by (simp add: waitForKernelReady_def waitForKernelReady_run_def waitForKernelReady_enter_def
        readyStatuses_def)
  have o: "outcome_of ?r = Some result_envelope"
    by (simp add: outcome_of_def)
  from queryKernel_first_terminal_wins [of ?evs ?r ?later _ _ _ ?sc Idle "[]"] f k w o
  show ?thesis by simp
qed

section \<open>Properties of the readiness waiter\<close>

lemma w_settle_settled:
  "w_settled w \<noteq> None \<Longrightarrow> w_settled (w_settle r w) = w_settled w"
  by (simp add: w_settle_def)

lemma wait_step_settled:
  assumes "w_settled w = Some r"
  shows "w_settled (wait_step w ev) = Some r"
proof (cases ev)
  case (StatusChanged s)
  then show ?thesis using assms by (simp add: onStatusChanged_def w_settle_def)
next
  case WaitTimerFired
  then show ?thesis using assms by (simp add: onWaitTimeout_def w_settle_def)
qed

lemma wait_foldl_settled:
  "w_settled w = Some r \<Longrightarrow> w_settled (foldl wait_step w evs) = Some r"
  by (induction evs arbitrary: w) (simp_all add: wait_step_settled)

text \<open>
  On the two paths where a status settles the wait, the observer is disconnected and the
  timer cleared.
\<close>

lemma onStatusChanged_disconnects:
  assumes "s \<in> set readyStatuses \<or> s \<in> set badStatuses"
  shows "\<not> observer_connected (onStatusChanged s w) \<and> \<not> timer_armed (onStatusChanged s w)"
  using assms by (auto simp: onStatusChanged_def w_settle_def)

lemma waitForKernelReady_ready_path:
  "waitForKernelReady_run Busy [StatusChanged Idle]
     = \<lparr>w_settled = Some (Inr ()), observer_connected = False, timer_armed = False\<rparr>"
  by (simp add: waitForKernelReady_run_def waitForKernelReady_enter_def onStatusChanged_def
      w_settle_def readyStatuses_def badStatuses_def)

lemma waitForKernelReady_bad_path:
  "waitForKernelReady_run Busy [StatusChanged Dead]
     = \<lparr>w_settled = Some (Inl (bad_status_error Dead)), observer_connected = False,
        timer_armed = False\<rparr>"
  by (simp add: waitForKernelReady_run_def waitForKernelReady_enter_def onStatusChanged_def
      w_settle_def readyStatuses_def badStatuses_def)

text \<open>
  Claim C4 fails on the code. A call made while the kernel is busy connects the observer;
  when the timer fires with no status change before it, the promise is rejected with the
  timeout error and the observer is still connected: the timer's callback rejects
  without calling \<^verbatim>\<open>kernel.statusChanged.disconnect\<close>, which the ready and the
  bad-status paths both call.
\<close>

theorem waitForKernelReady_timeout_keeps_observer:
  "waitForKernelReady_run Busy [WaitTimerFired]
     = \<lparr>w_settled = Some (Inl (ThrownKernelError (new_KernelError timeout None))),
        observer_connected = True, timer_armed = False\<rparr>"
  by (simp add: waitForKernelReady_run_def waitForKernelReady_enter_def onWaitTimeout_def
      w_settle_def readyStatuses_def badStatuses_def)

text \<open>The readiness wait rejects with typed kernel errors only.\<close>

lemma wait_step_kernel_errors:
  assumes "w_settled w = None \<or> (\<exists>u. w_settled w = Some (Inr u)) \<or> (\<exists>ke. w_settled w = Some (Inl (ThrownKernelError ke)))"
  shows "w_settled (wait_step w ev) = None \<or> (\<exists>u. w_settled (wait_step w ev) = Some (Inr u))
       \<or> (\<exists>ke. w_settled (wait_step w ev) = Some (Inl (ThrownKernelError ke)))"
proof (cases ev)
  case (StatusChanged s)
  then show ?thesis using assms
    by (auto simp: onStatusChanged_def w_settle_def bad_status_error_def)
next
  case WaitTimerFired
  then show ?thesis using assms
    by (auto simp: onWaitTimeout_def w_settle_def)
qed

lemma wait_foldl_kernel_errors:
  assumes "w_settled w = None \<or> (\<exists>u. w_settled w = Some (Inr u)) \<or> (\<exists>ke. w_settled w = Some (Inl (ThrownKernelError ke)))"
  shows "w_settled (foldl wait_step w evs) = None
       \<or> (\<exists>u. w_settled (foldl wait_step w evs) = Some (Inr u))
       \<or> (\<exists>ke. w_settled (foldl wait_step w evs) = Some (Inl (ThrownKernelError ke)))"
  using assms
proof (induction evs arbitrary: w)
  case Nil
  then show ?case by simp
next
  case (Cons ev evs)
  from Cons.IH [OF wait_step_kernel_errors [OF Cons.prems, of ev]] show ?case by simp
qed

lemma waitForKernelReady_kernel_errors:
  assumes "waitForKernelReady s evs = Some (Inl e)"
  shows "\<exists>ke. e = ThrownKernelError ke"
proof -
  have "w_settled (waitForKernelReady_enter s) = None
      \<or> (\<exists>u. w_settled (waitForKernelReady_enter s) = Some (Inr u))
      \<or> (\<exists>ke. w_settled (waitForKernelReady_enter s) = Some (Inl (ThrownKernelError ke)))"
    by (simp add: waitForKernelReady_enter_def bad_status_error_def)
  from wait_foldl_kernel_errors [OF this, of evs] assms show ?thesis
    by (auto simp: waitForKernelReady_def waitForKernelReady_run_def)
qed

section \<open>Failures of a query\<close>

lemma terminal_outcome_shape:
  assumes "terminal_outcome ev = Some r"
  shows "(\<exists>c. r = \<lparr>data = Some c, error = None\<rparr>) \<or> (\<exists>ke. r = \<lparr>data = None, error = Some ke\<rparr>)"
proof (cases ev)
  case (IOPub msg)
  with assms show ?thesis by (cases msg) auto
next
  case ExecTimerFired
  with assms show ?thesis by auto
qed

lemma first_terminal_shape:
  "first_terminal evs = Some r \<Longrightarrow>
     (\<exists>c. r = \<lparr>data = Some c, error = None\<rparr>) \<or> (\<exists>ke. r = \<lparr>data = None, error = Some ke\<rparr>)"
  by (induction evs) (auto split: option.splits dest: terminal_outcome_shape)

lemma etype_new_KernelError: "etype (new_KernelError t det) = t"
  by (simp add: new_KernelError_def Let_def)

lemma catch_wait_shape: "\<exists>ke. catch_wait e = \<lparr>data = None, error = Some ke\<rparr>"
  by (cases e) simp_all

lemma first_terminal_after_quiet:
  "first_terminal pre = None \<Longrightarrow>
     first_terminal (pre @ ev # post)
       = (case terminal_outcome ev of Some r \<Rightarrow> Some r | None \<Rightarrow> first_terminal post)"
  by (induction pre) (auto split: option.splits)

lemma new_KernelError_details:
  "ename (new_KernelError t (Some d)) = d_ename d
   \<and> evalue (new_KernelError t (Some d)) = d_evalue d
   \<and> traceback (new_KernelError t (Some d)) = d_traceback d"
  by (simp add: new_KernelError_def Let_def)

text \<open>
  Claim C9. With no live kernel connection \<^verbatim>\<open>queryKernel\<close> returns at once, whatever
  else happens, an error of kind \<^verbatim>\<open>not_available\<close>. What the readiness wait throws
  is returned in the error field: the \<^verbatim>\<open>KernelError\<close> itself when it is one (and the
  wait throws nothing else), an error of kind \<^verbatim>\<open>not_ready\<close> otherwise. With a kernel
  that is ready, the call returns the outcome of the first terminal event of the
  execution: when that event is an error message, an error of kind
  \<^verbatim>\<open>execution_error\<close> with the engine's name, message and traceback and no data;
  when it is the timer, an error of kind \<^verbatim>\<open>timeout\<close> and no data. Whatever
  \<^verbatim>\<open>queryKernel\<close> returns holds either data and no error, or an error and no data.
\<close>

theorem queryKernel_failures_are_typed:
  "(live_kernel sc = None \<longrightarrow>
      queryKernel sc wevs xevs = Some \<lparr>data = None, error = Some (new_KernelError not_available None)\<rparr>
      \<and> etype (new_KernelError not_available None) = not_available)
   \<and> (live_kernel sc = Some k \<and> waitForKernelReady k wevs = Some (Inl e) \<longrightarrow>
        queryKernel sc wevs xevs = Some (catch_wait e)
        \<and> (\<exists>ke. e = ThrownKernelError ke
              \<and> queryKernel sc wevs xevs = Some \<lparr>data = None, error = Some ke\<rparr>))
   \<and> catch_wait (ThrownKernelError ke) = \<lparr>data = None, error = Some ke\<rparr>
   \<and> ((\<forall>ke'. e' \<noteq> ThrownKernelError ke') \<longrightarrow>
        catch_wait e' = \<lparr>data = None, error = Some (new_KernelError not_ready None)\<rparr>
        \<and> etype (new_KernelError not_ready None) = not_ready)
   \<and> (queryKernel sc wevs xevs = Some r \<longrightarrow>
        (\<exists>c. r = \<lparr>data = Some c, error = None\<rparr>) \<or> (\<exists>ke. r = \<lparr>data = None, error = Some ke\<rparr>))
   \<and> (live_kernel sc = Some k \<and> waitForKernelReady k wevs = Some (Inr ()) \<longrightarrow>
        queryKernel sc wevs xevs = first_terminal xevs)
   \<and> (live_kernel sc = Some k \<and> waitForKernelReady k wevs = Some (Inr ())
        \<and> first_terminal pre = None \<longrightarrow>
        queryKernel sc wevs (pre @ IOPub (error_message d) # post)
          = Some \<lparr>data = None, error = Some (new_KernelError execution_error (Some d))\<rparr>
        \<and> queryKernel sc wevs (pre @ ExecTimerFired # post)
          = Some \<lparr>data = None, error = Some (new_KernelError timeout None)\<rparr>
        \<and> queryKernel sc wevs pre = None)
   \<and> etype (new_KernelError execution_error (Some d)) = execution_error
   \<and> ename (new_KernelError execution_error (Some d)) = d_ename d
   \<and> evalue (new_KernelError execution_error (Some d)) = d_evalue d
   \<and> traceback (new_KernelError execution_error (Some d)) = d_traceback d
   \<and> etype (new_KernelError timeout None) = timeout"
proof -
  have 1: "live_kernel sc = None \<longrightarrow>
      queryKernel sc wevs xevs = Some \<lparr>data = None, error = Some (new_KernelError not_available None)\<rparr>
      \<and> etype (new_KernelError not_available None) = not_available"
    by (simp add: queryKernel_def etype_new_KernelError)
  have 2: "live_kernel sc = Some k \<and> waitForKernelReady k wevs = Some (Inl e) \<longrightarrow>
        queryKernel sc wevs xevs = Some (catch_wait e)
        \<and> (\<exists>ke. e = ThrownKernelError ke
              \<and> queryKernel sc wevs xevs = Some \<lparr>data = None, error = Some ke\<rparr>)"
  proof
    assume a: "live_kernel sc = Some k \<and> waitForKernelReady k wevs = Some (Inl e)"
    then have q: "queryKernel sc wevs xevs = Some (catch_wait e)"
      by (simp add: queryKernel_def)
    from a waitForKernelReady_kernel_errors [of k wevs e]
    obtain ke where "e = ThrownKernelError ke"
      by blast
    with q show "queryKernel sc wevs xevs = Some (catch_wait e)
        \<and> (\<exists>ke. e = ThrownKernelError ke
              \<and> queryKernel sc wevs xevs = Some \<lparr>data = None, error = Some ke\<rparr>)"
      by simp
  qed
  have 3: "catch_wait (ThrownKernelError ke) = \<lparr>data = None, error = Some ke\<rparr>"
    by simp
  have 4: "(\<forall>ke'. e' \<noteq> ThrownKernelError ke') \<longrightarrow>
        catch_wait e' = \<lparr>data = None, error = Some (new_KernelError not_ready None)\<rparr>
        \<and> etype (new_KernelError not_ready None) = not_ready"
    by (cases e') (simp_all add: etype_new_KernelError)
  have 5: "queryKernel sc wevs xevs = Some r \<longrightarrow>
        (\<exists>c. r = \<lparr>data = Some c, error = None\<rparr>) \<or> (\<exists>ke. r = \<lparr>data = None, error = Some ke\<rparr>)"
  proof
    assume q: "queryKernel sc wevs xevs = Some r"
    show "(\<exists>c. r = \<lparr>data = Some c, error = None\<rparr>) \<or> (\<exists>ke. r = \<lparr>data = None, error = Some ke\<rparr>)"
    proof (cases "live_kernel sc")
      case None
      with q show ?thesis by (auto simp: queryKernel_def)
    next
      case (Some k')
      show ?thesis
      proof (cases "waitForKernelReady k' wevs")
        case None
        with Some q show ?thesis by (simp add: queryKernel_def)
      next
        case w: (Some res)
        show ?thesis
        proof (cases res)
          case (Inl err)
          with Some w q have "r = catch_wait err" by (simp add: queryKernel_def)
          with catch_wait_shape [of err] show ?thesis by auto
        next
          case (Inr u)
          with Some w q have "first_terminal xevs = Some r"
            by (simp add: queryKernel_def exec_run_first_terminal)
          then show ?thesis by (rule first_terminal_shape)
        qed
      qed
    qed
  qed
  have ready: "\<And>evs. live_kernel sc = Some k \<and> waitForKernelReady k wevs = Some (Inr ()) \<Longrightarrow>
        queryKernel sc wevs evs = first_terminal evs"
    by (simp add: queryKernel_def exec_run_first_terminal)
  have 6: "live_kernel sc = Some k \<and> waitForKernelReady k wevs = Some (Inr ()) \<longrightarrow>
        queryKernel sc wevs xevs = first_terminal xevs"
    using ready by blast
  have 7: "live_kernel sc = Some k \<and> waitForKernelReady k wevs = Some (Inr ())
        \<and> first_terminal pre = None \<longrightarrow>
        queryKernel sc wevs (pre @ IOPub (error_message d) # post)
          = Some \<lparr>data = None, error = Some (new_KernelError execution_error (Some d))\<rparr>
        \<and> queryKernel sc wevs (pre @ ExecTimerFired # post)
          = Some \<lparr>data = None, error = Some (new_KernelError timeout None)\<rparr>
        \<and> queryKernel sc wevs pre = None"
  proof
    assume a: "live_kernel sc = Some k \<and> waitForKernelReady k wevs = Some (Inr ())
        \<and> first_terminal pre = None"
    then have quiet: "first_terminal pre = None" and rdy: "live_kernel sc = Some k \<and> waitForKernelReady k wevs = Some (Inr ())"
      by simp_all
    show "queryKernel sc wevs (pre @ IOPub (error_message d) # post)
          = Some \<lparr>data = None, error = Some (new_KernelError execution_error (Some d))\<rparr>
        \<and> queryKernel sc wevs (pre @ ExecTimerFired # post)
          = Some \<lparr>data = None, error = Some (new_KernelError timeout None)\<rparr>
        \<and> queryKernel sc wevs pre = None"
      using ready [OF rdy] quiet by (simp add: first_terminal_after_quiet)
  qed
  have 8: "etype (new_KernelError execution_error (Some d)) = execution_error
   \<and> ename (new_KernelError execution_error (Some d)) = d_ename d
   \<and> evalue (new_KernelError execution_error (Some d)) = d_evalue d
   \<and> traceback (new_KernelError execution_error (Some d)) = d_traceback d
   \<and> etype (new_KernelError timeout None) = timeout"
    by (simp add: etype_new_KernelError new_KernelError_details)
  show ?thesis using 1 2 3 4 5 6 7 8 by blast
qed

theorem queryKernel_failures_are_typed_witness:
  "live_kernel (Some \<lparr>session = None\<rparr>) = None
   \<and> queryKernel (Some \<lparr>session = None\<rparr>) [] [IOPub (execute_result JNull)]
       = Some \<lparr>data = None, error = Some (new_KernelError not_available None)\<rparr>
   \<and> live_kernel (Some \<lparr>session = Some \<lparr>kernel = Some Dead\<rparr>\<rparr>) = Some Dead
   \<and> waitForKernelReady Dead [] = Some (Inl (ThrownKernelError (new_KernelError dead None)))
   \<and> queryKernel (Some \<lparr>session = Some \<lparr>kernel = Some Dead\<rparr>\<rparr>) [] [IOPub (execute_result JNull)]
       = Some \<lparr>data = None, error = Some (new_KernelError dead None)\<rparr>
   \<and> (\<forall>ke'. ThrownError ''boom'' \<noteq> ThrownKernelError ke')
   \<and> catch_wait (ThrownError ''boom'') = \<lparr>data = None, error = Some (new_KernelError not_ready None)\<rparr>
   \<and> live_kernel (Some \<lparr>session = Some \<lparr>kernel = Some Busy\<rparr>\<rparr>) = Some Busy
   \<and> waitForKernelReady Busy [StatusChanged Idle] = Some (Inr ())
   \<and> first_terminal [IOPub (stream stderr ''warning'')] = None
   \<and> queryKernel (Some \<lparr>session = Some \<lparr>kernel = Some Busy\<rparr>\<rparr>) [StatusChanged Idle]
        ([IOPub (stream stderr ''warning'')]
         @ IOPub (error_message \<lparr>d_ename = Some ''NameError'', d_evalue = Some ''x'', d_traceback = Some []\<rparr>)
         # [IOPub (execute_result JNull)])
       = Some \<lparr>data = None, error = Some (new_KernelError execution_error
            (Some \<lparr>d_ename = Some ''NameError'', d_evalue = Some ''x'', d_traceback = Some []\<rparr>))\<rparr>
   \<and> queryKernel (Some \<lparr>session = Some \<lparr>kernel = Some Busy\<rparr>\<rparr>) [StatusChanged Idle]
        ([IOPub (stream stderr ''warning'')] @ ExecTimerFired # [IOPub (execute_result JNull)])
       = Some \<lparr>data = None, error = Some (new_KernelError timeout None)\<rparr>
   \<and> message (new_KernelError execution_error
            (Some \<lparr>d_ename = Some ''NameError'', d_evalue = Some ''x'', d_traceback = Some []\<rparr>))
       = ''NameError: x''"
proof -
  let ?none = "Some \<lparr>session = None\<rparr>"
  let ?deadk = "Some \<lparr>session = Some \<lparr>kernel = Some Dead\<rparr>\<rparr>"
  let ?busyk = "Some \<lparr>session = Some \<lparr>kernel = Some Busy\<rparr>\<rparr>"
  let ?xevs = "[IOPub (execute_result JNull)]"
  let ?pre = "[IOPub (stream stderr ''warning'')]"
  let ?d = "\<lparr>d_ename = Some ''NameError'', d_evalue = Some ''x'', d_traceback = Some []\<rparr>"
  have a: "live_kernel ?none = None"
    by (simp add: live_kernel_def)
  have b: "live_kernel ?deadk = Some Dead"
    by (simp add: live_kernel_def)
  have c: "waitForKernelReady Dead [] = Some (Inl (ThrownKernelError (new_KernelError dead None)))"
    by (simp add: waitForKernelReady_def waitForKernelReady_run_def waitForKernelReady_enter_def
        readyStatuses_def badStatuses_def bad_status_error_def)
  have d: "\<forall>ke'. ThrownError ''boom'' \<noteq> ThrownKernelError ke'"
    by simp
  have e: "live_kernel ?busyk = Some Busy"
    by (simp add: live_kernel_def)
  have f: "waitForKernelReady Busy [StatusChanged Idle] = Some (Inr ())"
    by (simp add: waitForKernelReady_def waitForKernelReady_run_def waitForKernelReady_enter_def
        onStatusChanged_def w_settle_def readyStatuses_def badStatuses_def)
  have g: "first_terminal ?pre = None"
    by simp
  have h: "message (new_KernelError execution_error (Some ?d)) = ''NameError: x''"
    by (simp add: new_KernelError_def Let_def)
  from a b c d e f g h
    queryKernel_failures_are_typed [of ?none "[]" ?xevs]
    queryKernel_failures_are_typed [of ?deadk "[]" ?xevs Dead
      "ThrownKernelError (new_KernelError dead None)" "new_KernelError dead None" "ThrownError ''boom''"]
    queryKernel_failures_are_typed [of ?busyk "[StatusChanged Idle]" ?xevs Busy _ _ _ _ ?pre ?d ?xevs]
  show ?thesis by simp
qed

section \<open>Properties of the session manager\<close>

lemma acquire_while_initializing:
  assumes "sharedSessionContext m = None" "sharedSessionPromise m = Some p"
  shows "foldl manager_step m (map Acquire cs)
           = m\<lparr>awaiting := awaiting m @ map (\<lambda>c. (c, p, False)) cs\<rparr>"
  using assms
proof (induction cs arbitrary: m)
  case Nil
  then show ?case by simp
next
  case (Cons c cs)
  let ?m = "getOrCreateSharedSession c m"
  have m: "?m = m\<lparr>awaiting := awaiting m @ [(c, p, False)]\<rparr>"
    using Cons.prems by (simp add: getOrCreateSharedSession_def)
  then have "sharedSessionContext ?m = None" "sharedSessionPromise ?m = Some p"
    using Cons.prems by simp_all
  from Cons.IH [OF this] m show ?case by simp
qed

lemma first_acquire:
  "getOrCreateSharedSession c0 manager_init
     = manager_init\<lparr>sharedSessionPromise := Some 0, pending_inits := [0],
         inits_started := Suc 0, awaiting := [(c0, 0, True)]\<rparr>"
  by (simp add: getOrCreateSharedSession_def manager_init_def Let_def)

lemma concurrent_acquires:
  "manager_run (map Acquire (c0 # cs))
     = manager_init\<lparr>sharedSessionPromise := Some 0, pending_inits := [0],
         inits_started := Suc 0, awaiting := (c0, 0, True) # map (\<lambda>c. (c, 0, False)) cs\<rparr>"
proof -
  let ?m = "getOrCreateSharedSession c0 manager_init"
  have "sharedSessionContext ?m = None" "sharedSessionPromise ?m = Some 0"
    by (simp_all add: first_acquire) (simp_all add: manager_init_def)
  from acquire_while_initializing [OF this, of cs] show ?thesis
    by (simp add: manager_run_def first_acquire)
qed

lemma filter_same_promise:
  "filter (\<lambda>(c, q, i). q = p) (map (\<lambda>c. (c, p, False)) cs) = map (\<lambda>c. (c, p, False)) cs"
  by (induction cs) simp_all

lemma filter_other_promise:
  "filter (\<lambda>(c, q, i). q \<noteq> p) (map (\<lambda>c. (c, p, False)) cs) = []"
  by (induction cs) simp_all

lemma init_body_counts:
  "fst (snd (init_body env sid)) \<le> 1 \<and> snd (snd (init_body env sid)) \<le> 1"
  by (simp add: init_body_def split: option.splits sum.splits change_outcome.splits)

lemma init_body_session:
  "fst (init_body env sid) = Inr s \<Longrightarrow> s = sid"
  by (simp add: init_body_def split: option.splits sum.splits change_outcome.splits if_splits)

lemma settled_state:
  "manager_run (map Acquire (c0 # cs) @ [InitSettles 0 env])
     = (let (r, created, requested) = init_body env 0 in
        manager_init\<lparr>
          sharedSessionContext := (case r of Inr s \<Rightarrow> Some s | Inl e \<Rightarrow> None),
          sharedSessionPromise := (if isl r then None else Some 0),
          pending_inits := [],
          inits_started := Suc 0,
          awaiting := [],
          returned := map (\<lambda>c. (c, r)) (c0 # cs),
          observed := (case r of Inr s \<Rightarrow> [s] | Inl e \<Rightarrow> []),
          sessions_created := created,
          kernels_requested := requested\<rparr>)"
proof -
  have "manager_run (map Acquire (c0 # cs) @ [InitSettles 0 env])
          = init_settles 0 env (manager_run (map Acquire (c0 # cs)))"
    by (simp add: manager_run_def)
  also have "\<dots> = (let (r, created, requested) = init_body env 0 in
        manager_init\<lparr>
          sharedSessionContext := (case r of Inr s \<Rightarrow> Some s | Inl e \<Rightarrow> None),
          sharedSessionPromise := (if isl r then None else Some 0),
          pending_inits := [],
          inits_started := Suc 0,
          awaiting := [],
          returned := map (\<lambda>c. (c, r)) (c0 # cs),
          observed := (case r of Inr s \<Rightarrow> [s] | Inl e \<Rightarrow> []),
          sessions_created := created,
          kernels_requested := requested\<rparr>)"
    unfolding concurrent_acquires
    by (cases "init_body env 0")
       (auto simp: init_settles_def manager_init_def filter_same_promise filter_other_promise
          comp_def split: sum.splits)
  finally show ?thesis .
qed

text \<open>
  The same steps from any state with no shared session and no initialization in flight:
  the first call starts the initialization whose promise is \<open>inits_started m\<close>, the
  calls after it attach to that promise.
\<close>

lemma first_acquire_from:
  assumes "sharedSessionContext m = None" "sharedSessionPromise m = None"
  shows "getOrCreateSharedSession c0 m
     = m\<lparr>sharedSessionPromise := Some (inits_started m),
         pending_inits := pending_inits m @ [inits_started m],
         inits_started := Suc (inits_started m),
         awaiting := awaiting m @ [(c0, inits_started m, True)]\<rparr>"
  using assms by (simp add: getOrCreateSharedSession_def Let_def)

lemma concurrent_acquires_from:
  assumes "sharedSessionContext m = None" "sharedSessionPromise m = None"
  shows "foldl manager_step m (map Acquire (c0 # cs))
     = m\<lparr>sharedSessionPromise := Some (inits_started m),
         pending_inits := pending_inits m @ [inits_started m],
         inits_started := Suc (inits_started m),
         awaiting := awaiting m @ (c0, inits_started m, True)
                       # map (\<lambda>c. (c, inits_started m, False)) cs\<rparr>"
proof -
  let ?m = "getOrCreateSharedSession c0 m"
  have "sharedSessionContext ?m = None" "sharedSessionPromise ?m = Some (inits_started m)"
    using assms by (simp_all add: first_acquire_from)
  from acquire_while_initializing [OF this, of cs] show ?thesis
    using assms by (simp add: first_acquire_from)
qed

lemma settled_state_from:
  assumes "sharedSessionContext m = None" "sharedSessionPromise m = None"
  shows "foldl manager_step m (map Acquire (c0 # cs) @ [InitSettles (inits_started m) env])
     = (let (r, created, requested) = init_body env (sessions_created m) in
        m\<lparr>sharedSessionContext := (case r of Inr s \<Rightarrow> Some s | Inl e \<Rightarrow> None),
          sharedSessionPromise := (if isl r then None else Some (inits_started m)),
          pending_inits := removeAll (inits_started m) (pending_inits m),
          inits_started := Suc (inits_started m),
          awaiting := filter (\<lambda>(c, q, i). q \<noteq> inits_started m) (awaiting m),
          returned := returned m
            @ map (\<lambda>(c, q, i). (c, r)) (filter (\<lambda>(c, q, i). q = inits_started m) (awaiting m))
            @ map (\<lambda>c. (c, r)) (c0 # cs),
          observed := (case r of Inr s \<Rightarrow> observed m @ [s] | Inl e \<Rightarrow> observed m),
          sessions_created := sessions_created m + created,
          kernels_requested := kernels_requested m + requested\<rparr>)"
proof -
  have "foldl manager_step m (map Acquire (c0 # cs) @ [InitSettles (inits_started m) env])
          = init_settles (inits_started m) env (foldl manager_step m (map Acquire (c0 # cs)))"
    by simp
  also have "\<dots> = (let (r, created, requested) = init_body env (sessions_created m) in
        m\<lparr>sharedSessionContext := (case r of Inr s \<Rightarrow> Some s | Inl e \<Rightarrow> None),
          sharedSessionPromise := (if isl r then None else Some (inits_started m)),
          pending_inits := removeAll (inits_started m) (pending_inits m),
          inits_started := Suc (inits_started m),
          awaiting := filter (\<lambda>(c, q, i). q \<noteq> inits_started m) (awaiting m),
          returned := returned m
            @ map (\<lambda>(c, q, i). (c, r)) (filter (\<lambda>(c, q, i). q = inits_started m) (awaiting m))
            @ map (\<lambda>c. (c, r)) (c0 # cs),
          observed := (case r of Inr s \<Rightarrow> observed m @ [s] | Inl e \<Rightarrow> observed m),
          sessions_created := sessions_created m + created,
          kernels_requested := kernels_requested m + requested\<rparr>)"
    unfolding concurrent_acquires_from [OF assms] using assms
    by (cases m, cases "init_body env (sessions_created m)")
       (auto simp: init_settles_def filter_same_promise filter_other_promise
          comp_def split: sum.splits)
  finally show ?thesis .
qed

text \<open>
  In every state the manager reaches, the promises that calls wait on, and the promise
  in \<^verbatim>\<open>sharedSessionPromise\<close>, are of initializations already started; so no call
  waits on the promise of the next initialization before it starts.
\<close>

lemma manager_step_promises_started:
  assumes "\<forall>x \<in> set (awaiting m). fst (snd x) < inits_started m"
    and "\<forall>p. sharedSessionPromise m = Some p \<longrightarrow> p < inits_started m"
  shows "(\<forall>x \<in> set (awaiting (manager_step m ev)). fst (snd x) < inits_started (manager_step m ev))
       \<and> (\<forall>p. sharedSessionPromise (manager_step m ev) = Some p \<longrightarrow>
              p < inits_started (manager_step m ev))"
proof (cases ev)
  case (Acquire c)
  then show ?thesis using assms
    by (auto simp: getOrCreateSharedSession_def Let_def less_Suc_eq split: option.splits)
next
  case (InitSettles p env)
  then show ?thesis using assms
    by (cases "init_body env (sessions_created m)")
       (auto simp: init_settles_def Let_def split: sum.splits if_splits)
next
  case (SessionStatus s st co)
  then show ?thesis using assms
    by (cases co) (auto simp: on_session_status_def Let_def)
qed

lemma manager_foldl_promises_started:
  assumes "\<forall>x \<in> set (awaiting m). fst (snd x) < inits_started m"
    and "\<forall>p. sharedSessionPromise m = Some p \<longrightarrow> p < inits_started m"
  shows "(\<forall>x \<in> set (awaiting (foldl manager_step m evs)).
            fst (snd x) < inits_started (foldl manager_step m evs))
       \<and> (\<forall>p. sharedSessionPromise (foldl manager_step m evs) = Some p \<longrightarrow>
              p < inits_started (foldl manager_step m evs))"
  using assms
proof (induction evs arbitrary: m)
  case Nil
  then show ?case by simp
next
  case (Cons ev evs)
  from manager_step_promises_started [OF Cons.prems, of ev]
  have "\<forall>x \<in> set (awaiting (manager_step m ev)). fst (snd x) < inits_started (manager_step m ev)"
    and "\<forall>p. sharedSessionPromise (manager_step m ev) = Some p \<longrightarrow>
              p < inits_started (manager_step m ev)"
    by blast+
  from Cons.IH [OF this] show ?case by simp
qed

lemma reachable_no_stale_waiters:
  "filter (\<lambda>(c, q, i). q = inits_started (manager_run evs)) (awaiting (manager_run evs)) = []"
proof -
  have "\<forall>x \<in> set (awaiting (manager_run evs)). fst (snd x) < inits_started (manager_run evs)"
    using manager_foldl_promises_started [of manager_init evs]
    by (simp add: manager_run_def manager_init_def)
  then show ?thesis
    by (auto simp: filter_empty_conv)
qed

text \<open>
  Claim C2. Take any state \<open>m\<close> of the manager with no shared session and no
  initialization in flight (the first call ever, or a call after any number of failed
  initializations), and let callers \<open>c0\<close> and then \<open>cs\<close> (any number of them) call
  \<^verbatim>\<open>getOrCreateSharedSession\<close> before the initialization settles. One initialization
  is started, its promise \<open>inits_started m\<close> is the shared one, and all these calls wait
  on it. When it settles, every call waiting on that promise gets the same session or the
  same error, at most one session context was created and at most one kernel requested.
  On a failure \<^verbatim>\<open>sharedSessionPromise\<close> is cleared and no shared session is set, so that
  the next call starts the next initialization, on a promise of its own; on a success the
  next call returns the shared session at once and starts nothing.
\<close>

theorem getOrCreateSharedSession_shared_initialization:
  assumes nosession: "sharedSessionContext m = None"
    and noflight: "sharedSessionPromise m = None"
  shows "inits_started (foldl manager_step m (map Acquire (c0 # cs))) = Suc (inits_started m)
   \<and> sharedSessionPromise (foldl manager_step m (map Acquire (c0 # cs))) = Some (inits_started m)
   \<and> awaiting (foldl manager_step m (map Acquire (c0 # cs)))
       = awaiting m @ (c0, inits_started m, True) # map (\<lambda>c. (c, inits_started m, False)) cs
   \<and> returned (foldl manager_step m (map Acquire (c0 # cs) @ [InitSettles (inits_started m) env]))
       = returned m
         @ map (\<lambda>(c, q, i). (c, fst (init_body env (sessions_created m))))
             (filter (\<lambda>(c, q, i). q = inits_started m) (awaiting m))
         @ map (\<lambda>c. (c, fst (init_body env (sessions_created m)))) (c0 # cs)
   \<and> awaiting (foldl manager_step m (map Acquire (c0 # cs) @ [InitSettles (inits_started m) env]))
       = filter (\<lambda>(c, q, i). q \<noteq> inits_started m) (awaiting m)
   \<and> inits_started (foldl manager_step m (map Acquire (c0 # cs) @ [InitSettles (inits_started m) env]))
       = Suc (inits_started m)
   \<and> sessions_created (foldl manager_step m (map Acquire (c0 # cs) @ [InitSettles (inits_started m) env]))
       \<le> Suc (sessions_created m)
   \<and> kernels_requested (foldl manager_step m (map Acquire (c0 # cs) @ [InitSettles (inits_started m) env]))
       \<le> Suc (kernels_requested m)
   \<and> (isl (fst (init_body env (sessions_created m))) \<longrightarrow>
        sharedSessionPromise
          (foldl manager_step m (map Acquire (c0 # cs) @ [InitSettles (inits_started m) env])) = None
        \<and> sharedSessionContext
            (foldl manager_step m (map Acquire (c0 # cs) @ [InitSettles (inits_started m) env])) = None
        \<and> inits_started
            (foldl manager_step m (map Acquire (c0 # cs) @ [InitSettles (inits_started m) env, Acquire c']))
            = Suc (Suc (inits_started m))
        \<and> sharedSessionPromise
            (foldl manager_step m (map Acquire (c0 # cs) @ [InitSettles (inits_started m) env, Acquire c']))
            = Some (Suc (inits_started m))
        \<and> awaiting
            (foldl manager_step m (map Acquire (c0 # cs) @ [InitSettles (inits_started m) env, Acquire c']))
            = filter (\<lambda>(c, q, i). q \<noteq> inits_started m) (awaiting m) @ [(c', Suc (inits_started m), True)])
   \<and> (fst (init_body env (sessions_created m)) = Inr s \<longrightarrow>
        sharedSessionContext
          (foldl manager_step m (map Acquire (c0 # cs) @ [InitSettles (inits_started m) env])) = Some s
        \<and> inits_started
            (foldl manager_step m (map Acquire (c0 # cs) @ [InitSettles (inits_started m) env, Acquire c']))
            = Suc (inits_started m)
        \<and> returned
            (foldl manager_step m (map Acquire (c0 # cs) @ [InitSettles (inits_started m) env, Acquire c']))
            = returned (foldl manager_step m (map Acquire (c0 # cs) @ [InitSettles (inits_started m) env]))
              @ [(c', Inr s)])"
proof -
  let ?p = "inits_started m"
  let ?acq = "foldl manager_step m (map Acquire (c0 # cs))"
  let ?done = "foldl manager_step m (map Acquire (c0 # cs) @ [InitSettles ?p env])"
  let ?next = "foldl manager_step m (map Acquire (c0 # cs) @ [InitSettles ?p env, Acquire c'])"
  obtain r created requested where b: "init_body env (sessions_created m) = (r, created, requested)"
    by (cases "init_body env (sessions_created m)") auto
  from init_body_counts [of env "sessions_created m"] b have le: "created \<le> 1" "requested \<le> 1"
    by simp_all
  note st = settled_state_from [OF nosession noflight, of c0 cs env]
  have n: "?next = getOrCreateSharedSession c' ?done"
    by simp
  have a: "inits_started ?acq = Suc ?p \<and> sharedSessionPromise ?acq = Some ?p
      \<and> awaiting ?acq = awaiting m @ (c0, ?p, True) # map (\<lambda>c. (c, ?p, False)) cs"
    unfolding concurrent_acquires_from [OF nosession noflight] by simp
  have d: "returned ?done
       = returned m
         @ map (\<lambda>(c, q, i). (c, fst (init_body env (sessions_created m))))
             (filter (\<lambda>(c, q, i). q = ?p) (awaiting m))
         @ map (\<lambda>c. (c, fst (init_body env (sessions_created m)))) (c0 # cs)
      \<and> awaiting ?done = filter (\<lambda>(c, q, i). q \<noteq> ?p) (awaiting m)
      \<and> inits_started ?done = Suc ?p
      \<and> sessions_created ?done \<le> Suc (sessions_created m)
      \<and> kernels_requested ?done \<le> Suc (kernels_requested m)"
    unfolding st using b le by simp
  have f: "isl (fst (init_body env (sessions_created m))) \<longrightarrow>
        sharedSessionPromise ?done = None \<and> sharedSessionContext ?done = None
        \<and> inits_started ?next = Suc (Suc ?p) \<and> sharedSessionPromise ?next = Some (Suc ?p)
        \<and> awaiting ?next = filter (\<lambda>(c, q, i). q \<noteq> ?p) (awaiting m) @ [(c', Suc ?p, True)]"
  proof
    assume "isl (fst (init_body env (sessions_created m)))"
    then obtain e where e: "r = Inl e"
      using b by (cases r) simp_all
    show "sharedSessionPromise ?done = None \<and> sharedSessionContext ?done = None
        \<and> inits_started ?next = Suc (Suc ?p) \<and> sharedSessionPromise ?next = Some (Suc ?p)
        \<and> awaiting ?next = filter (\<lambda>(c, q, i). q \<noteq> ?p) (awaiting m) @ [(c', Suc ?p, True)]"
      unfolding n st using b e
      by (simp add: getOrCreateSharedSession_def Let_def)
  qed
  have g: "fst (init_body env (sessions_created m)) = Inr s \<longrightarrow>
        sharedSessionContext ?done = Some s \<and> inits_started ?next = Suc ?p
        \<and> returned ?next = returned ?done @ [(c', Inr s)]"
  proof
    assume "fst (init_body env (sessions_created m)) = Inr s"
    then have r: "r = Inr s"
      using b by simp
    show "sharedSessionContext ?done = Some s \<and> inits_started ?next = Suc ?p
        \<and> returned ?next = returned ?done @ [(c', Inr s)]"
      unfolding n st using b r
      by (simp add: getOrCreateSharedSession_def)
  qed
  show ?thesis using a d f g by blast
qed

text \<open>
  The initialization in \<open>env_ok\<close>, and in an environment in which the kernel does not
  start before the timeout; the state after one caller's initialization has failed so.
\<close>

lemma init_body_env_ok: "init_body env_ok sid = (Inr sid, 1, 1)"
  by (simp add: init_body_def env_ok_def KERNEL_NAME_def)

lemma init_body_env_hangs:
  "init_body (env_ok\<lparr>changeKernel_outcome := ChangeHangs\<rparr>) sid
     = (Inl (ThrownError ''Timeout starting kernel after 60s''), 1, 1)"
  by (simp add: init_body_def env_ok_def KERNEL_NAME_def)

lemma failed_once:
  "manager_run [Acquire 7, InitSettles 0 (env_ok\<lparr>changeKernel_outcome := ChangeHangs\<rparr>)]
     = manager_init\<lparr>inits_started := Suc 0,
         returned := [(7, Inl (ThrownError ''Timeout starting kernel after 60s''))],
         sessions_created := 1, kernels_requested := 1\<rparr>"
  using settled_state [of 7 "[]" "env_ok\<lparr>changeKernel_outcome := ChangeHangs\<rparr>"]
  by (simp add: init_body_env_hangs manager_init_def)

theorem getOrCreateSharedSession_shared_initialization_witness:
  "sharedSessionContext
      (manager_run [Acquire 7, InitSettles 0 (env_ok\<lparr>changeKernel_outcome := ChangeHangs\<rparr>)]) = None
   \<and> sharedSessionPromise
      (manager_run [Acquire 7, InitSettles 0 (env_ok\<lparr>changeKernel_outcome := ChangeHangs\<rparr>)]) = None
   \<and> inits_started
      (manager_run [Acquire 7, InitSettles 0 (env_ok\<lparr>changeKernel_outcome := ChangeHangs\<rparr>)]) = 1
   \<and> isl (fst (init_body (env_ok\<lparr>changeKernel_outcome := ChangeHangs\<rparr>) 1))
   \<and> returned (manager_run ([Acquire 7, InitSettles 0 (env_ok\<lparr>changeKernel_outcome := ChangeHangs\<rparr>)]
        @ map Acquire (8 # [9]) @ [InitSettles 1 (env_ok\<lparr>changeKernel_outcome := ChangeHangs\<rparr>)]))
       = [(7, Inl (ThrownError ''Timeout starting kernel after 60s'')),
          (8, Inl (ThrownError ''Timeout starting kernel after 60s'')),
          (9, Inl (ThrownError ''Timeout starting kernel after 60s''))]
   \<and> sharedSessionPromise
        (manager_run ([Acquire 7, InitSettles 0 (env_ok\<lparr>changeKernel_outcome := ChangeHangs\<rparr>)]
        @ map Acquire (8 # [9]) @ [InitSettles 1 (env_ok\<lparr>changeKernel_outcome := ChangeHangs\<rparr>)]))
       = None
   \<and> inits_started
        (manager_run ([Acquire 7, InitSettles 0 (env_ok\<lparr>changeKernel_outcome := ChangeHangs\<rparr>)]
        @ map Acquire (8 # [9])
        @ [InitSettles 1 (env_ok\<lparr>changeKernel_outcome := ChangeHangs\<rparr>), Acquire 10])) = 3
   \<and> sharedSessionPromise
        (manager_run ([Acquire 7, InitSettles 0 (env_ok\<lparr>changeKernel_outcome := ChangeHangs\<rparr>)]
        @ map Acquire (8 # [9])
        @ [InitSettles 1 (env_ok\<lparr>changeKernel_outcome := ChangeHangs\<rparr>), Acquire 10])) = Some 2
   \<and> fst (init_body env_ok 1) = Inr 1
   \<and> sharedSessionContext
        (manager_run ([Acquire 7, InitSettles 0 (env_ok\<lparr>changeKernel_outcome := ChangeHangs\<rparr>)]
        @ map Acquire (8 # [9]) @ [InitSettles 1 env_ok])) = Some 1
   \<and> returned
        (manager_run ([Acquire 7, InitSettles 0 (env_ok\<lparr>changeKernel_outcome := ChangeHangs\<rparr>)]
        @ map Acquire (8 # [9]) @ [InitSettles 1 env_ok, Acquire 10]))
       = [(7, Inl (ThrownError ''Timeout starting kernel after 60s'')),
          (8, Inr 1), (9, Inr 1), (10, Inr 1)]"
proof -
  let ?hangs = "env_ok\<lparr>changeKernel_outcome := ChangeHangs\<rparr>"
  let ?m = "manager_run [Acquire 7, InitSettles 0 ?hangs]"
  have run: "\<And>evs. manager_run ([Acquire 7, InitSettles 0 ?hangs] @ evs) = foldl manager_step ?m evs"
    by (simp add: manager_run_def)
  have c: "sharedSessionContext ?m = None" and p: "sharedSessionPromise ?m = None"
    and i: "inits_started ?m = 1" and sc: "sessions_created ?m = 1"
    and w: "awaiting ?m = []"
    and r: "returned ?m = [(7, Inl (ThrownError ''Timeout starting kernel after 60s''))]"
    unfolding failed_once by (simp_all add: manager_init_def)
  from getOrCreateSharedSession_shared_initialization [OF c p, of 8 "[9]" ?hangs 10 1]
    getOrCreateSharedSession_shared_initialization [OF c p, of 8 "[9]" env_ok 10 1]
    c p i
  show ?thesis
    unfolding run i sc w r by (simp add: init_body_env_ok init_body_env_hangs)
qed

text \<open>
  Claim C5, as the code has it. On a session whose status is observed, a change of the
  kernel's status to dead makes one reconnection attempt (one more kernel is requested),
  and any other status makes none. When the reconnection succeeds the recorded error is
  cleared. When it fails the error is recorded, the shared session stays in place, and
  the next call of \<^verbatim>\<open>getOrCreateSharedSession\<close> returns that session without starting
  an initialization, the error still recorded.
\<close>

theorem reconnect_on_dead:
  assumes obs: "s \<in> set (observed m)"
    and est: "sharedSessionContext m = Some s"
  shows "reconnect_attempts (on_session_status s Dead co m) = Suc (reconnect_attempts m)
       \<and> kernels_requested (on_session_status s Dead co m) = Suc (kernels_requested m)
       \<and> (st \<noteq> Dead \<longrightarrow> on_session_status s st co m = m)
       \<and> sharedSessionError (on_session_status s Dead ChangeOk m) = None
       \<and> sharedSessionError (on_session_status s Dead (ChangeFails e) m)
           = Some ''Kernel died and reconnection failed''
       \<and> sharedSessionContext (on_session_status s Dead (ChangeFails e) m) = Some s
       \<and> getOrCreateSharedSession c (on_session_status s Dead (ChangeFails e) m)
           = (on_session_status s Dead (ChangeFails e) m)
               \<lparr>returned := returned m @ [(c, Inr s)]\<rparr>"
proof -
  have 1: "reconnect_attempts (on_session_status s Dead co m) = Suc (reconnect_attempts m)
       \<and> kernels_requested (on_session_status s Dead co m) = Suc (kernels_requested m)"
    using obs by (cases co) (simp_all add: on_session_status_def)
  have 2: "st \<noteq> Dead \<longrightarrow> on_session_status s st co m = m"
    by (simp add: on_session_status_def)
  have 3: "sharedSessionError (on_session_status s Dead ChangeOk m) = None"
    using obs by (simp add: on_session_status_def)
  have 4: "sharedSessionError (on_session_status s Dead (ChangeFails e) m)
           = Some ''Kernel died and reconnection failed''
       \<and> sharedSessionContext (on_session_status s Dead (ChangeFails e) m) = Some s"
    using obs est by (simp add: on_session_status_def)
  have 5: "getOrCreateSharedSession c (on_session_status s Dead (ChangeFails e) m)
           = (on_session_status s Dead (ChangeFails e) m)
               \<lparr>returned := returned m @ [(c, Inr s)]\<rparr>"
    using obs est by (simp add: on_session_status_def getOrCreateSharedSession_def)
  show ?thesis using 1 2 3 4 5 by blast
qed

lemma established:
  "manager_run [Acquire 0, InitSettles 0 env_ok]
     = manager_init\<lparr>sharedSessionContext := Some 0, sharedSessionPromise := Some 0,
         inits_started := Suc 0, returned := [(0, Inr 0)], observed := [0],
         sessions_created := 1, kernels_requested := 1\<rparr>"
  using settled_state [of 0 "[]" env_ok]
  by (simp add: init_body_env_ok manager_init_def)

theorem reconnect_on_dead_witness:
  "0 \<in> set (observed (manager_run [Acquire 0, InitSettles 0 env_ok]))
   \<and> sharedSessionContext (manager_run [Acquire 0, InitSettles 0 env_ok]) = Some 0
   \<and> Busy \<noteq> Dead
   \<and> reconnect_attempts
        (on_session_status 0 Dead (ChangeFails ''refused'') (manager_run [Acquire 0, InitSettles 0 env_ok]))
       = 1
   \<and> on_session_status 0 Busy (ChangeFails ''refused'') (manager_run [Acquire 0, InitSettles 0 env_ok])
       = manager_run [Acquire 0, InitSettles 0 env_ok]
   \<and> sharedSessionError
        (on_session_status 0 Dead (ChangeFails ''refused'') (manager_run [Acquire 0, InitSettles 0 env_ok]))
       = Some ''Kernel died and reconnection failed''
   \<and> sharedSessionError
        (on_session_status 0 Dead ChangeOk
          (on_session_status 0 Dead (ChangeFails ''refused'')
            (manager_run [Acquire 0, InitSettles 0 env_ok])))
       = None"
proof -
  let ?m = "manager_run [Acquire 0, InitSettles 0 env_ok]"
  let ?m' = "on_session_status 0 Dead (ChangeFails ''refused'') ?m"
  have o: "0 \<in> set (observed ?m)" and e: "sharedSessionContext ?m = Some 0"
    unfolding established by (simp_all add: manager_init_def)
  have r: "reconnect_attempts ?m = 0"
    unfolding established by (simp add: manager_init_def)
  have o': "0 \<in> set (observed ?m')" and e': "sharedSessionContext ?m' = Some 0"
    using o e by (simp_all add: on_session_status_def)
  from reconnect_on_dead [OF o e, of "ChangeFails ''refused''" Busy "''refused''" 1]
    reconnect_on_dead [OF o' e', of ChangeOk Busy "''refused''" 1]
    o e r
  show ?thesis by simp
qed

text \<open>
  The claim C5 as the spec states it fails in its last part: after a failed reconnection
  the next call of \<^verbatim>\<open>getOrCreateSharedSession\<close> attempts no initialization. It returns
  the shared session at once: no further initialization is started, none is pending, and
  \<^verbatim>\<open>sharedSessionContext\<close> is what it was.
\<close>

theorem reconnect_failure_counterexample:
  "inits_started (manager_run [Acquire 0, InitSettles 0 env_ok,
        SessionStatus 0 Dead (ChangeFails ''refused''), Acquire 1]) = 1
   \<and> pending_inits (manager_run [Acquire 0, InitSettles 0 env_ok,
        SessionStatus 0 Dead (ChangeFails ''refused''), Acquire 1]) = []
   \<and> returned (manager_run [Acquire 0, InitSettles 0 env_ok,
        SessionStatus 0 Dead (ChangeFails ''refused''), Acquire 1]) = [(0, Inr 0), (1, Inr 0)]
   \<and> sharedSessionError (manager_run [Acquire 0, InitSettles 0 env_ok,
        SessionStatus 0 Dead (ChangeFails ''refused''), Acquire 1])
       = Some ''Kernel died and reconnection failed''"
proof -
  have "manager_run [Acquire 0, InitSettles 0 env_ok,
          SessionStatus 0 Dead (ChangeFails ''refused''), Acquire 1]
      = getOrCreateSharedSession 1 (on_session_status 0 Dead (ChangeFails ''refused'')
          (manager_run [Acquire 0, InitSettles 0 env_ok]))"
    by (simp add: manager_run_def)
  then show ?thesis
    unfolding established
    by (simp add: on_session_status_def getOrCreateSharedSession_def manager_init_def)
qed

end
